theory Spec2Isabelle
  imports Main
begin

section \<open>JavaScript values\<close>

text \<open>
  The routes handle parsed JSON of the upstream service and build object literals from
  it. A value is one of JavaScript's JSON-shaped values, with \<open>undefined\<close> for a
  property that is missing. Numbers are the integer-valued ones (the codes and
  identifiers the routes compare); strings are lists of code units below 256.
\<close>

datatype jsval =
    JUndefined
  | JNull
  | JBool bool
  | JNum int
  | JStr string
  | JArr "jsval list"
  | JObj "(string \<times> jsval) list"

text \<open>An \<open>Error\<close> object: its \<open>name\<close> and its \<open>message\<close>.\<close>

datatype js_error = JsError (err_name: string) (err_message: string)

text \<open>ToBoolean, as used by \<open>!x\<close>, \<open>x ? a : b\<close> and \<open>x || y\<close>.\<close>

fun truthy :: "jsval \<Rightarrow> bool" where
  "truthy JUndefined = False"
| "truthy JNull = False"
| "truthy (JBool b) = b"
| "truthy (JNum n) = (n \<noteq> 0)"
| "truthy (JStr s) = (s \<noteq> [])"
| "truthy (JArr xs) = True"
| "truthy (JObj kvs) = True"

text \<open>\<open>a || b\<close>\<close>

definition js_or :: "jsval \<Rightarrow> jsval \<Rightarrow> jsval" where
  "js_or a b = (if truthy a then a else b)"

fun lookup :: "(string \<times> jsval) list \<Rightarrow> string \<Rightarrow> jsval" where
  "lookup [] k = JUndefined"
| "lookup ((k', v) # kvs) k = (if k' = k then v else lookup kvs k)"

text \<open>
  \<open>v.k\<close> for the data properties the routes read, on a receiver that is neither
  \<open>null\<close> nor \<open>undefined\<close>: an object yields the property or \<open>undefined\<close>, a
  primitive or an array has none of these properties.
\<close>

fun get :: "jsval \<Rightarrow> string \<Rightarrow> jsval" where
  "get (JObj kvs) k = lookup kvs k"
| "get v k = JUndefined"

definition nullish :: "jsval \<Rightarrow> bool" where
  "nullish v = (v = JUndefined \<or> v = JNull)"

text \<open>\<open>v?.k\<close>\<close>

definition opt_get :: "jsval \<Rightarrow> string \<Rightarrow> jsval" where
  "opt_get v k = (if nullish v then JUndefined else get v k)"

text \<open>
  \<open>v.k\<close> evaluated on any receiver: reading a property of \<open>null\<close> or
  \<open>undefined\<close> throws a TypeError.
\<close>

definition read_member :: "jsval \<Rightarrow> string \<Rightarrow> js_error + jsval" where
  "read_member v k =
     (if nullish v
      then Inl (JsError ''TypeError''
             (''Cannot read properties of '' @ (if v = JNull then ''null'' else ''undefined'')
              @ '' (reading '' @ [CHR 0x27] @ k @ [CHR 0x27] @ '')''))
      else Inr (get v k))"

section \<open>Strings and numbers\<close>

text \<open>\<open>s.startsWith(p)\<close> and \<open>s.includes(p)\<close>.\<close>

definition startsWith :: "string \<Rightarrow> string \<Rightarrow> bool" where
  "startsWith s p = (take (length p) s = p)"

fun str_includes :: "string \<Rightarrow> string \<Rightarrow> bool" where
  "str_includes [] p = (p = [])"
| "str_includes (c # cs) p = (startsWith (c # cs) p \<or> str_includes cs p)"

text \<open>
  \<open>s.replace(p, r)\<close> with a string pattern: the first occurrence of \<open>p\<close> is
  replaced (\<open>r\<close> holds no \<open>$\<close> pattern in the source).
\<close>

fun replace :: "string \<Rightarrow> string \<Rightarrow> string \<Rightarrow> string" where
  "replace [] p r = (if p = [] then r else [])"
| "replace (c # cs) p r =
     (if startsWith (c # cs) p then r @ drop (length p) (c # cs)
      else c # replace cs p r)"

text \<open>Number to string, as a template literal renders an integer (below \<open>10^21\<close>).\<close>

function show_nat :: "nat \<Rightarrow> string" where
  "show_nat n =
     (if n < 10 then [''0123456789'' ! n]
      else show_nat (n div 10) @ [''0123456789'' ! (n mod 10)])"
  by pat_completeness auto
termination
  by (relation "measure id") auto

declare show_nat.simps [simp del]

definition show_int :: "int \<Rightarrow> string" where
  "show_int i = (if i < 0 then CHR ''-'' # show_nat (nat (- i)) else show_nat (nat i))"

subsection \<open>Number.parseInt\<close>

text \<open>
  ECMAScript's \<open>parseInt(string, radix)\<close>: leading white space is skipped, a sign is
  read, with no radix (written \<open>0\<close> here) or radix 16 a prefix \<open>0x\<close> or \<open>0X\<close> selects
  base 16, and the longest prefix of digits of the radix is the number; with no digit the
  result is NaN (\<open>None\<close>). The result is kept as the exact integer; \<open>-0\<close> is \<open>0\<close>.
  The source rounds it to a double, which differs from the integer only beyond
  \<open>2^53\<close> and never makes a non-zero number zero.
\<close>

definition isStrWhiteSpaceChar :: "char \<Rightarrow> bool" where
  "isStrWhiteSpaceChar c =
     (c \<in> {CHR 0x09, CHR 0x0A, CHR 0x0B, CHR 0x0C, CHR 0x0D, CHR 0x20, CHR 0xA0})"

fun index_of :: "char \<Rightarrow> string \<Rightarrow> nat option" where
  "index_of c [] = None"
| "index_of c (d # ds) =
     (if c = d then Some 0 else map_option Suc (index_of c ds))"

definition digitValue :: "char \<Rightarrow> nat option" where
  "digitValue c =
     (case index_of c ''0123456789abcdefghijklmnopqrstuvwxyz'' of
        Some n \<Rightarrow> Some n
      | None \<Rightarrow> index_of c ''0123456789ABCDEFGHIJKLMNOPQRSTUVWXYZ'')"

fun radixDigits :: "nat \<Rightarrow> string \<Rightarrow> nat list" where
  "radixDigits R [] = []"
| "radixDigits R (c # cs) =
     (case digitValue c of
        None \<Rightarrow> []
      | Some d \<Rightarrow> if d < R then d # radixDigits R cs else [])"

definition mathInt :: "nat \<Rightarrow> nat list \<Rightarrow> nat" where
  "mathInt R Z = foldl (\<lambda>a d. a * R + d) 0 Z"

definition parseInt :: "string \<Rightarrow> nat \<Rightarrow> int option" where
  "parseInt inputString radix =
     (let S = dropWhile isStrWhiteSpaceChar inputString;
          sign = (if S \<noteq> [] \<and> hd S = CHR ''-'' then - 1 else (1 :: int));
          S1 = (if S \<noteq> [] \<and> (hd S = CHR ''+'' \<or> hd S = CHR ''-'') then tl S else S)
      in if radix \<noteq> 0 \<and> (radix < 2 \<or> 36 < radix) then None
         else
           let stripPrefix = (radix = 0 \<or> radix = 16);
               R0 = (if radix = 0 then 10 else radix);
               hex = (stripPrefix \<and> (take 2 S1 = ''0x'' \<or> take 2 S1 = ''0X''));
               R = (if hex then 16 else R0);
               S2 = (if hex then drop 2 S1 else S1);
               Z = radixDigits R S2
           in if Z = [] then None else Some (sign * int (mathInt R Z)))"

text \<open>\<open>!n\<close> for a number: true of NaN and of zero.\<close>

definition not_number :: "int option \<Rightarrow> bool" where
  "not_number n = (n = None \<or> n = Some 0)"

section \<open>The upstream service\<close>

text \<open>
  What \<open>fetch\<close> gives for a URL: a response (its status, status text, headers, the body
  as text and the outcome of \<open>response.json()\<close> on it), or a rejection with an error
  (\<open>AbortError\<close> when the timeout aborts the request, \<open>fetch failed\<close> when the
  network is unreachable). Every request of one client carries the same credential, so
  the service is a function of the URL.
\<close>

record http_response =
  status :: nat
  statusText :: string
  headers :: "string \<Rightarrow> string option"
  body_text :: string
  body_json :: "js_error + jsval"

datatype fetch_outcome = Responded http_response | Rejected js_error

type_synonym upstream = "string \<Rightarrow> fetch_outcome"

text \<open>\<open>response.ok\<close>\<close>

definition ok :: "http_response \<Rightarrow> bool" where
  "ok response = (200 \<le> status response \<and> status response \<le> 299)"

section \<open>Configuration\<close>

record process_env =
  FRESHDESK_DOMAIN :: "string option"
  FRESHDESK_API_KEY :: "string option"

record FreshdeskConfig =
  domain :: string
  apiKey :: string

text \<open>\<open>process.env.X || ""\<close>\<close>

definition env_or_empty :: "string option \<Rightarrow> string" where
  "env_or_empty v = (case v of None \<Rightarrow> [] | Some s \<Rightarrow> if s \<noteq> [] then s else [])"

definition freshdeskConfig :: "process_env \<Rightarrow> FreshdeskConfig" where
  "freshdeskConfig env =
     \<lparr>domain = env_or_empty (FRESHDESK_DOMAIN env),
      apiKey = env_or_empty (FRESHDESK_API_KEY env)\<rparr>"

section \<open>The client: FreshdeskAPI\<close>

text \<open>The constructor's \<open>baseUrl\<close>.\<close>

definition baseUrl :: "FreshdeskConfig \<Rightarrow> string" where
  "baseUrl config =
     (let cleanDomain = replace (domain config) ''.freshdesk.com'' []
      in ''https://'' @ cleanDomain @ ''.freshdesk.com/api/v2'')"

text \<open>
  The \<open>catch\<close> block of \<open>getTicket\<close> and \<open>getConversations\<close>: a timeout and a
  network failure get messages of their own, any other error is thrown on as it is.
\<close>

definition rethrow_with_context :: "js_error \<Rightarrow> js_error" where
  "rethrow_with_context e =
     (if err_name e = ''AbortError''
      then JsError ''Error'' ''Request timeout - Freshdesk API took too long to respond''
      else if str_includes (err_message e) ''fetch failed''
      then JsError ''Error''
        ''Network error - Unable to connect to Freshdesk API. Check your domain and network connectivity.''
      else e)"

text \<open>
  Each operation returns its result (\<open>Inl\<close> the error it throws) and the URLs it
  requested from the upstream service, in order.
\<close>

definition getTicket ::
  "upstream \<Rightarrow> FreshdeskConfig \<Rightarrow> int \<Rightarrow> (js_error + jsval) \<times> string list" where
  "getTicket fetch config ticketId =
     (let url = baseUrl config @ ''/tickets/'' @ show_int ticketId;
          attempt =
            (case fetch url of
               Rejected e \<Rightarrow> Inl e
             | Responded response \<Rightarrow>
                 if \<not> ok response then
                   (if status response = 404
                    then Inl (JsError ''Error'' (''Ticket #'' @ show_int ticketId @ '' not found''))
                    else if status response = 401
                    then Inl (JsError ''Error''
                           ''Authentication failed - check your API key and domain'')
                    else Inl (JsError ''Error''
                           (''Failed to fetch ticket: '' @ show_nat (status response) @ '' ''
                            @ statusText response @ '' - '' @ body_text response)))
                 else body_json response)
      in (case attempt of
            Inl e \<Rightarrow> (Inl (rethrow_with_context e), [url])
          | Inr data \<Rightarrow> (Inr data, [url])))"

definition getConversations ::
  "upstream \<Rightarrow> FreshdeskConfig \<Rightarrow> int \<Rightarrow> nat \<Rightarrow> (js_error + jsval) \<times> string list" where
  "getConversations fetch config ticketId page =
     (let url = baseUrl config @ ''/tickets/'' @ show_int ticketId
                @ ''/conversations?page='' @ show_nat page @ ''&per_page=100'';
          attempt =
            (case fetch url of
               Rejected e \<Rightarrow> Inl e
             | Responded response \<Rightarrow>
                 if \<not> ok response then
                   (if status response = 401
                    then Inl (JsError ''Error''
                           ''Authentication failed - check your API key and domain'')
                    else if status response = 404
                    then Inl (JsError ''Error'' (''Ticket #'' @ show_int ticketId
                           @ '' not found or no conversations available''))
                    else Inl (JsError ''Error''
                           (''Failed to fetch conversations: '' @ show_nat (status response)
                            @ '' '' @ statusText response @ '' - '' @ body_text response)))
                 else body_json response)
      in (case attempt of
            Inl e \<Rightarrow> (Inl (rethrow_with_context e), [url])
          | Inr data \<Rightarrow> (Inr data, [url])))"

subsection \<open>The attachment's file name\<close>

text \<open>
  The regular expression \<^verbatim>\<open>/filename[^;=\n]*=((['"]).*?\2|[^;\n]*)/\<close> of
  \<open>getAttachment\<close>. After the word \<open>filename\<close> the class \<^verbatim>\<open>[^;=\n]*\<close> runs up to
  the first of \<open>;\<close>, \<open>=\<close> and line feed, which must be \<open>=\<close>. Group 1 is then a quoted
  string (a quote, the shortest run without line terminator up to the same quote) or,
  failing that, the longest run without \<open>;\<close> and line feed. The match is the leftmost
  one.
\<close>

definition isQuote :: "char \<Rightarrow> bool" where
  "isQuote c = (c = CHR 0x27 \<or> c = CHR 0x22)"

definition unquotedValue :: "string \<Rightarrow> string" where
  "unquotedValue v = takeWhile (\<lambda>c. c \<noteq> CHR '';'' \<and> c \<noteq> CHR 0x0A) v"

definition group1 :: "string \<Rightarrow> string" where
  "group1 v =
     (case v of
        [] \<Rightarrow> []
      | q # w \<Rightarrow>
          if isQuote q then
            (let inner = takeWhile (\<lambda>c. c \<noteq> q \<and> c \<noteq> CHR 0x0A \<and> c \<noteq> CHR 0x0D) w;
                 rest = drop (length inner) w
             in if rest \<noteq> [] \<and> hd rest = q then q # inner @ [q] else unquotedValue v)
          else unquotedValue v)"

definition matchHere :: "string \<Rightarrow> string option" where
  "matchHere s =
     (if startsWith s ''filename'' then
        (case dropWhile (\<lambda>c. c \<noteq> CHR '';'' \<and> c \<noteq> CHR ''='' \<and> c \<noteq> CHR 0x0A) (drop 8 s) of
           [] \<Rightarrow> None
         | c # v \<Rightarrow> if c = CHR ''='' then Some (group1 v) else None)
      else None)"

fun filenameMatch :: "string \<Rightarrow> string option" where
  "filenameMatch [] = matchHere []"
| "filenameMatch (c # cs) =
     (case matchHere (c # cs) of
        Some g \<Rightarrow> Some g
      | None \<Rightarrow> filenameMatch cs)"

text \<open>\<^verbatim>\<open>.replace(/['"]/g, "")\<close>\<close>

definition stripQuotes :: "string \<Rightarrow> string" where
  "stripQuotes s = filter (\<lambda>c. \<not> isQuote c) s"

record attachment =
  blob :: string
  contentType :: string
  filename :: string

text \<open>\<open>response.headers.get(name) || dflt\<close>\<close>

definition header_or :: "http_response \<Rightarrow> string \<Rightarrow> string \<Rightarrow> string" where
  "header_or response name dflt =
     (case headers response name of
        None \<Rightarrow> dflt
      | Some v \<Rightarrow> if v \<noteq> [] then v else dflt)"

definition getAttachment ::
  "upstream \<Rightarrow> FreshdeskConfig \<Rightarrow> int \<Rightarrow> (js_error + attachment) \<times> string list" where
  "getAttachment fetch config attachmentId =
     (let url = baseUrl config @ ''/attachments/'' @ show_int attachmentId;
          attempt =
            (case fetch url of
               Rejected e \<Rightarrow> Inl e
             | Responded response \<Rightarrow>
                 if \<not> ok response then
                   (if status response = 404
                    then Inl (JsError ''Error''
                           (''Attachment '' @ show_int attachmentId @ '' not found''))
                    else if status response = 401
                    then Inl (JsError ''Error'' ''Authentication failed - check your API key'')
                    else Inl (JsError ''Error''
                           (''Failed to fetch attachment: '' @ show_nat (status response)
                            @ '' '' @ statusText response @ '' - '' @ body_text response)))
                 else
                   (let contentType = header_or response ''content-type''
                                        ''application/octet-stream'';
                        contentDisposition = header_or response ''content-disposition'' [];
                        filename =
                          (case filenameMatch contentDisposition of
                             Some g \<Rightarrow> stripQuotes g
                           | None \<Rightarrow> ''attachment_'' @ show_int attachmentId)
                    in Inr \<lparr>blob = body_text response, contentType = contentType,
                            filename = filename\<rparr>))
      in (case attempt of
            Inl e \<Rightarrow>
              (Inl (if err_name e = ''AbortError''
                    then JsError ''Error''
                      ''Attachment download timeout - file took too long to download''
                    else if str_includes (err_message e) ''fetch failed''
                    then JsError ''Error''
                      ''Network error - Unable to connect to Freshdesk for attachment download''
                    else JsError ''Error'' (''Failed to fetch attachment: '' @ err_message e)),
               [url])
          | Inr a \<Rightarrow> (Inr a, [url])))"

text \<open>
  \<open>searchTickets(query)\<close>, called without filters. \<open>URLSearchParams\<close> serialises the
  query; the serialisation of a list of parameters is the platform's and is taken as
  \<open>toString\<close>.
\<close>

definition searchTickets ::
  "((string \<times> string) list \<Rightarrow> string) \<Rightarrow> upstream \<Rightarrow> FreshdeskConfig \<Rightarrow> string
     \<Rightarrow> (js_error + jsval) \<times> string list" where
  "searchTickets toString fetch config query =
     (let url = baseUrl config @ ''/search/tickets?'' @ toString [(''query'', query)]
      in (case fetch url of
            Rejected e \<Rightarrow> (Inl e, [url])
          | Responded response \<Rightarrow>
              if \<not> ok response
              then (Inl (JsError ''Error''
                      (''Failed to search tickets: '' @ statusText response)), [url])
              else (body_json response, [url])))"

section \<open>The routes\<close>

datatype response_body = JsonBody jsval | BlobBody string

record NextResponse =
  resp_status :: nat
  resp_body :: response_body
  resp_headers :: "(string \<times> string) list"

text \<open>\<open>NextResponse.json(value, { status })\<close>\<close>

definition NextResponse_json :: "jsval \<Rightarrow> nat \<Rightarrow> NextResponse" where
  "NextResponse_json v st = \<lparr>resp_status = st, resp_body = JsonBody v, resp_headers = []\<rparr>"

text \<open>The two configuration checks of the ticket and the conversations route.\<close>

definition domainError :: NextResponse where
  "domainError = NextResponse_json
     (JObj [(''error'', JStr ''Configuration Error''),
            (''details'', JStr
              ''FRESHDESK_DOMAIN environment variable is not set. Please add it in Project Settings.'')])
     500"

definition apiKeyError :: NextResponse where
  "apiKeyError = NextResponse_json
     (JObj [(''error'', JStr ''Configuration Error''),
            (''details'', JStr
              ''FRESHDESK_API_KEY environment variable is not set. Please add it in Project Settings.'')])
     500"

subsection \<open>GET /api/freshdesk/tickets/[id]\<close>

definition ticket_status :: "jsval \<Rightarrow> string" where
  "ticket_status s =
     (if s = JNum 2 then ''open''
      else if s = JNum 3 then ''pending''
      else if s = JNum 4 then ''resolved''
      else if s = JNum 5 then ''closed''
      else ''open'')"

definition ticket_priority :: "jsval \<Rightarrow> string" where
  "ticket_priority p =
     (if p = JNum 1 then ''low''
      else if p = JNum 2 then ''medium''
      else if p = JNum 3 then ''high''
      else if p = JNum 4 then ''urgent''
      else ''medium'')"

text \<open>
  The object literal \<open>transformedTicket\<close>. Its first property read, \<open>ticketData.id\<close>,
  throws when the payload is \<open>null\<close>; after it every read is of a value that is not.
\<close>

definition transformedTicket :: "jsval \<Rightarrow> js_error + jsval" where
  "transformedTicket ticketData =
     (case read_member ticketData ''id'' of
        Inl e \<Rightarrow> Inl e
      | Inr ticket_id \<Rightarrow>
          Inr (JObj
            [(''id'', ticket_id),
             (''subject'', get ticketData ''subject''),
             (''description'',
                js_or (get ticketData ''description_text'') (get ticketData ''description'')),
             (''status'', JStr (ticket_status (get ticketData ''status''))),
             (''priority'', JStr (ticket_priority (get ticketData ''priority''))),
             (''requester'', JObj
                [(''name'', js_or (opt_get (get ticketData ''requester'') ''name'')
                              (JStr ''Unknown'')),
                 (''email'', js_or (opt_get (get ticketData ''requester'') ''email'')
                               (JStr ''unknown@example.com'')),
                 (''phone'', opt_get (get ticketData ''requester'') ''phone''),
                 (''avatar'', opt_get (get ticketData ''requester'') ''avatar'')]),
             (''agent'',
                if truthy (get ticketData ''responder_id'')
                then JObj
                  [(''name'', js_or (opt_get (get ticketData ''responder'') ''name'')
                                (JStr ''Unassigned'')),
                   (''email'', js_or (opt_get (get ticketData ''responder'') ''email'')
                                 (JStr [])),
                   (''avatar'', opt_get (get ticketData ''responder'') ''avatar'')]
                else JUndefined),
             (''created_at'', get ticketData ''created_at''),
             (''updated_at'', get ticketData ''updated_at''),
             (''tags'', js_or (get ticketData ''tags'') (JArr []))]))"

text \<open>The inner \<open>catch (fetchError)\<close> of the ticket route.\<close>

definition ticketFetchError :: "js_error \<Rightarrow> int \<Rightarrow> NextResponse" where
  "ticketFetchError fetchError ticketId =
     (if str_includes (err_message fetchError) ''404''
      then NextResponse_json
        (JObj [(''error'', JStr ''Ticket Not Found''),
               (''details'', JStr (''Ticket #'' @ show_int ticketId
                  @ '' does not exist or you don'' @ [CHR 0x27]
                  @ ''t have permission to access it.'')),
               (''ticketId'', JNum ticketId)])
        404
      else NextResponse_json
        (JObj [(''error'', JStr ''Failed to Fetch Ticket''),
               (''details'', JStr (err_message fetchError)),
               (''ticketId'', JNum ticketId)])
        500)"

text \<open>
  The handler returns its response and the URLs it requested upstream. \<open>params_id\<close> is the
  path parameter \<open>params.id\<close>. Nothing outside the inner \<open>try\<close> throws, so the outer
  \<open>catch\<close> (\<open>Internal Server Error\<close>) has no branch here.
\<close>

definition tickets_GET :: "process_env \<Rightarrow> upstream \<Rightarrow> string \<Rightarrow> NextResponse \<times> string list" where
  "tickets_GET env fetch params_id =
     (let ticketId = parseInt params_id 0 in
      if not_number ticketId
      then (NextResponse_json (JObj [(''error'', JStr ''Invalid ticket ID'')]) 400, [])
      else if domain (freshdeskConfig env) = []
            \<or> domain (freshdeskConfig env) = ''your-domain''
      then (domainError, [])
      else if apiKey (freshdeskConfig env) = []
            \<or> apiKey (freshdeskConfig env) = ''your-api-key''
      then (apiKeyError, [])
      else
        (case ticketId of
           None \<Rightarrow> (NextResponse_json (JObj [(''error'', JStr ''Invalid ticket ID'')]) 400, [])
         | Some n \<Rightarrow>
             (case getTicket fetch (freshdeskConfig env) n of
                (Inl fetchError, calls) \<Rightarrow> (ticketFetchError fetchError n, calls)
              | (Inr ticketData, calls) \<Rightarrow>
                  (case transformedTicket ticketData of
                     Inl fetchError \<Rightarrow> (ticketFetchError fetchError n, calls)
                   | Inr t \<Rightarrow> (NextResponse_json t 200, calls)))))"

subsection \<open>GET /api/freshdesk/tickets/[id]/conversations\<close>

text \<open>
  \<open>conv.from_email?.split("@")[0]\<close>: nothing for a missing address, the text before the
  first \<open>@\<close> for a string; any other value has no \<open>split\<close> method and the call throws.
\<close>

definition emailLocalPart :: "jsval \<Rightarrow> js_error + jsval" where
  "emailLocalPart from_email =
     (case from_email of
        JUndefined \<Rightarrow> Inr JUndefined
      | JNull \<Rightarrow> Inr JUndefined
      | JStr s \<Rightarrow> Inr (JStr (takeWhile (\<lambda>c. c \<noteq> CHR ''@'') s))
      | _ \<Rightarrow> Inl (JsError ''TypeError'' ''conv.from_email?.split is not a function''))"

text \<open>\<open>conv.user?.name || conv.from_email?.split("@")[0] || "Unknown"\<close>\<close>

definition userName :: "jsval \<Rightarrow> js_error + jsval" where
  "userName conv =
     (if truthy (opt_get (get conv ''user'') ''name'')
      then Inr (opt_get (get conv ''user'') ''name'')
      else (case emailLocalPart (get conv ''from_email'') of
              Inl e \<Rightarrow> Inl e
            | Inr part \<Rightarrow> Inr (js_or part (JStr ''Unknown''))))"

definition transformConversation :: "jsval \<Rightarrow> js_error + jsval" where
  "transformConversation conv =
     (case read_member conv ''id'' of
        Inl e \<Rightarrow> Inl e
      | Inr conv_id \<Rightarrow>
          (case userName conv of
             Inl e \<Rightarrow> Inl e
           | Inr name \<Rightarrow>
               Inr (JObj
                 [(''id'', conv_id),
                  (''body'', get conv ''body''),
                  (''body_text'', get conv ''body_text''),
                  (''from_email'', get conv ''from_email''),
                  (''to_emails'', js_or (get conv ''to_emails'') (JArr [])),
                  (''cc_emails'', js_or (get conv ''cc_emails'') (JArr [])),
                  (''bcc_emails'', js_or (get conv ''bcc_emails'') (JArr [])),
                  (''created_at'', get conv ''created_at''),
                  (''updated_at'', get conv ''updated_at''),
                  (''incoming'', js_or (get conv ''incoming'') (JBool False)),
                  (''private'', js_or (get conv ''private'') (JBool False)),
                  (''user'', JObj
                     [(''name'', name),
                      (''email'', js_or (js_or (get conv ''from_email'')
                                     (opt_get (get conv ''user'') ''email'')) (JStr [])),
                      (''avatar'', js_or (opt_get (get conv ''user'') ''avatar'') JNull)]),
                  (''attachments'', js_or (get conv ''attachments'') (JArr []))])))"

text \<open>
  \<open>conversationsData.map(...)\<close> on an array: the elements are transformed in order and
  the first one that throws ends the call.
\<close>

fun mapConversations :: "jsval list \<Rightarrow> js_error + jsval list" where
  "mapConversations [] = Inr []"
| "mapConversations (conv # rest) =
     (case transformConversation conv of
        Inl e \<Rightarrow> Inl e
      | Inr c \<Rightarrow> map_sum (\<lambda>e. e) (\<lambda>cs. c # cs) (mapConversations rest))"

definition transformedConversations :: "jsval \<Rightarrow> js_error + jsval" where
  "transformedConversations conversationsData =
     (case conversationsData of
        JArr convs \<Rightarrow>
          (case mapConversations convs of
             Inl e \<Rightarrow> Inl e
           | Inr out \<Rightarrow> Inr (JArr out))
      | JUndefined \<Rightarrow> read_member conversationsData ''map''
      | JNull \<Rightarrow> read_member conversationsData ''map''
      | _ \<Rightarrow> Inl (JsError ''TypeError'' ''conversationsData.map is not a function''))"

definition conversationsFetchError :: "js_error \<Rightarrow> int \<Rightarrow> NextResponse" where
  "conversationsFetchError fetchError ticketId =
     (if str_includes (err_message fetchError) ''404''
      then NextResponse_json
        (JObj [(''error'', JStr ''Conversations Not Found''),
               (''details'', JStr (''No conversations found for ticket #'' @ show_int ticketId
                  @ '' or you don'' @ [CHR 0x27]
                  @ ''t have permission to access them.'')),
               (''ticketId'', JNum ticketId)])
        404
      else NextResponse_json
        (JObj [(''error'', JStr ''Failed to Fetch Conversations''),
               (''details'', JStr (err_message fetchError)),
               (''ticketId'', JNum ticketId)])
        500)"

definition conversations_GET ::
  "process_env \<Rightarrow> upstream \<Rightarrow> string \<Rightarrow> NextResponse \<times> string list" where
  "conversations_GET env fetch params_id =
     (let ticketId = parseInt params_id 0 in
      if not_number ticketId
      then (NextResponse_json (JObj [(''error'', JStr ''Invalid ticket ID'')]) 400, [])
      else if domain (freshdeskConfig env) = []
            \<or> domain (freshdeskConfig env) = ''your-domain''
      then (domainError, [])
      else if apiKey (freshdeskConfig env) = []
            \<or> apiKey (freshdeskConfig env) = ''your-api-key''
      then (apiKeyError, [])
      else
        (case ticketId of
           None \<Rightarrow> (NextResponse_json (JObj [(''error'', JStr ''Invalid ticket ID'')]) 400, [])
         | Some n \<Rightarrow>
             (case getConversations fetch (freshdeskConfig env) n 1 of
                (Inl fetchError, calls) \<Rightarrow> (conversationsFetchError fetchError n, calls)
              | (Inr conversationsData, calls) \<Rightarrow>
                  (case transformedConversations conversationsData of
                     Inl fetchError \<Rightarrow> (conversationsFetchError fetchError n, calls)
                   | Inr cs \<Rightarrow> (NextResponse_json cs 200, calls)))))"

subsection \<open>GET /api/freshdesk/attachments/[id]\<close>

text \<open>\<open>!process.env.X\<close>\<close>

definition env_unset :: "string option \<Rightarrow> bool" where
  "env_unset v = (v = None \<or> v = Some [])"

text \<open>\<open>filename || requestedFilename || `attachment_${attachmentId}`\<close>\<close>

definition finalFilename :: "string \<Rightarrow> string option \<Rightarrow> int \<Rightarrow> string" where
  "finalFilename fname requestedFilename attachmentId =
     (if fname \<noteq> [] then fname
      else (case requestedFilename of
              None \<Rightarrow> ''attachment_'' @ show_int attachmentId
            | Some r \<Rightarrow> if r \<noteq> [] then r else ''attachment_'' @ show_int attachmentId))"

text \<open>
  \<open>headers.set\<close> throws a TypeError on a value that holds NUL, line feed or carriage
  return (inside its leading and trailing white space, which is dropped). The message of
  that error is the platform's; \<open>Invalid header value\<close> stands for it below.
\<close>

definition isHttpWhitespace :: "char \<Rightarrow> bool" where
  "isHttpWhitespace c = (c = CHR 0x09 \<or> c = CHR 0x0A \<or> c = CHR 0x0D \<or> c = CHR 0x20)"

definition headerValueOk :: "string \<Rightarrow> bool" where
  "headerValueOk v =
     list_all (\<lambda>c. c \<noteq> CHR 0x00 \<and> c \<noteq> CHR 0x0A \<and> c \<noteq> CHR 0x0D)
       (rev (dropWhile isHttpWhitespace (rev (dropWhile isHttpWhitespace v))))"

text \<open>The outer \<open>catch (error)\<close> of the attachment route.\<close>

definition downloadError :: "js_error \<Rightarrow> string \<Rightarrow> NextResponse" where
  "downloadError error params_id =
     NextResponse_json
       (JObj [(''error'', JStr ''Failed to download attachment''),
              (''details'', JStr (err_message error)),
              (''attachmentId'', JStr params_id)])
       500"

text \<open>\<open>requestedFilename\<close> is the query parameter \<open>filename\<close>, \<open>None\<close> when absent.\<close>

definition attachments_GET ::
  "process_env \<Rightarrow> upstream \<Rightarrow> string \<Rightarrow> string option \<Rightarrow> NextResponse \<times> string list" where
  "attachments_GET env fetch params_id requestedFilename =
     (let attachmentId = parseInt params_id 0 in
      if not_number attachmentId
      then (NextResponse_json (JObj [(''error'', JStr ''Invalid attachment ID'')]) 400, [])
      else if env_unset (FRESHDESK_DOMAIN env) \<or> env_unset (FRESHDESK_API_KEY env)
      then (NextResponse_json
              (JObj [(''error'', JStr ''Freshdesk configuration missing''),
                     (''details'', JStr
                        ''FRESHDESK_DOMAIN or FRESHDESK_API_KEY not configured'')])
              500, [])
      else
        (case attachmentId of
           None \<Rightarrow>
             (NextResponse_json (JObj [(''error'', JStr ''Invalid attachment ID'')]) 400, [])
         | Some n \<Rightarrow>
             (case getAttachment fetch (freshdeskConfig env) n of
                (Inl error, calls) \<Rightarrow> (downloadError error params_id, calls)
              | (Inr a, calls) \<Rightarrow>
                  (let disposition = ''attachment; filename='' @ [CHR 0x22]
                         @ finalFilename (filename a) requestedFilename n @ [CHR 0x22]
                   in if headerValueOk disposition \<and> headerValueOk (contentType a)
                      then (\<lparr>resp_status = 200, resp_body = BlobBody (blob a),
                             resp_headers =
                               [(''Content-Disposition'', disposition),
                                (''Content-Type'', contentType a),
                                (''Cache-Control'', ''private, max-age=3600''),
                                (''Content-Length'', show_nat (length (blob a)))]\<rparr>, calls)
                      else (downloadError (JsError ''TypeError'' ''Invalid header value'')
                              params_id, calls)))))"

subsection \<open>GET /api/freshdesk/search\<close>

definition isDigit :: "char \<Rightarrow> bool" where
  "isDigit c = (c \<in> set ''0123456789'')"

text \<open>\<^verbatim>\<open>query.match(/\/tickets\/(\d+)/)\<close>: group 1 of the leftmost match.\<close>

fun urlMatch :: "string \<Rightarrow> string option" where
  "urlMatch [] = None"
| "urlMatch (c # cs) =
     (if startsWith (c # cs) ''/tickets/'' \<and> takeWhile isDigit (drop 9 (c # cs)) \<noteq> []
      then Some (takeWhile isDigit (drop 9 (c # cs)))
      else urlMatch cs)"

text \<open>\<^verbatim>\<open>query.match(/^\d+$/)\<close>\<close>

definition numberMatch :: "string \<Rightarrow> bool" where
  "numberMatch query = (query \<noteq> [] \<and> list_all isDigit query)"

definition searchError :: "js_error \<Rightarrow> NextResponse" where
  "searchError error =
     (if str_includes (err_message error) ''not found''
      then NextResponse_json
        (JObj [(''error'', JStr ''Ticket not found''),
               (''details'', JStr (err_message error))])
        404
      else NextResponse_json
        (JObj [(''error'', JStr ''Failed to search ticket''),
               (''details'', JStr (err_message error))])
        500)"

text \<open>
  \<open>q\<close> and \<open>type\<close> are the query parameters, \<open>None\<close> when absent. The route checks no
  configuration. \<open>Promise.all\<close> starts both requests and rejects with the rejection that
  arrives first: \<open>ticketFirst\<close> says whether that is the ticket's when both fail.
\<close>

definition search_GET ::
  "((string \<times> string) list \<Rightarrow> string) \<Rightarrow> bool \<Rightarrow> process_env \<Rightarrow> upstream
     \<Rightarrow> string option \<Rightarrow> string option \<Rightarrow> NextResponse \<times> string list" where
  "search_GET toString ticketFirst env fetch q type =
     (case q of
        None \<Rightarrow> (NextResponse_json (JObj [(''error'', JStr ''Search query is required'')]) 400, [])
      | Some query \<Rightarrow>
          if query = []
          then (NextResponse_json (JObj [(''error'', JStr ''Search query is required'')]) 400, [])
          else if type = Some ''domain'' then
            (case searchTickets toString fetch (freshdeskConfig env)
                    (''requester_email:*@'' @ query) of
               (Inl error, calls) \<Rightarrow>
                 (NextResponse_json
                    (JObj [(''error'', JStr ''Failed to search tickets by domain''),
                           (''details'', JStr (err_message error))]) 500, calls)
             | (Inr results, calls) \<Rightarrow>
                 (case read_member results ''results'' of
                    Inl error \<Rightarrow>
                      (NextResponse_json
                         (JObj [(''error'', JStr ''Failed to search tickets by domain''),
                                (''details'', JStr (err_message error))]) 500, calls)
                  | Inr rs \<Rightarrow>
                      (NextResponse_json
                         (JObj [(''results'', js_or rs (JArr [])),
                                (''total'', js_or (get results ''total'') (JNum 0))]) 200,
                       calls)))
          else
            (let ticketId =
                   (if type = Some ''url''
                    then (case urlMatch query of None \<Rightarrow> None | Some g \<Rightarrow> parseInt g 10)
                    else if numberMatch query then parseInt query 10 else None)
             in case ticketId of
                  None \<Rightarrow>
                    (NextResponse_json
                       (JObj [(''error'', JStr ''Could not extract ticket ID from input''),
                              (''details'', JStr
                                 ''Please provide a valid ticket number or Freshdesk URL'')])
                       400, [])
                | Some n \<Rightarrow>
                    if n = 0
                    then (NextResponse_json
                       (JObj [(''error'', JStr ''Could not extract ticket ID from input''),
                              (''details'', JStr
                                 ''Please provide a valid ticket number or Freshdesk URL'')])
                       400, [])
                    else
                      (case (getTicket fetch (freshdeskConfig env) n,
                             getConversations fetch (freshdeskConfig env) n 1) of
                         ((Inr ticket, c1), (Inr conversations, c2)) \<Rightarrow>
                           (case read_member ticket ''subject'' of
                              Inl error \<Rightarrow> (searchError error, c1 @ c2)
                            | Inr subject \<Rightarrow>
                                (NextResponse_json
                                   (JObj [(''ticket'', ticket),
                                          (''conversations'', conversations)]) 200,
                                 c1 @ c2))
                       | ((Inl e1, c1), (Inr conversations, c2)) \<Rightarrow> (searchError e1, c1 @ c2)
                       | ((Inr ticket, c1), (Inl e2, c2)) \<Rightarrow> (searchError e2, c1 @ c2)
                       | ((Inl e1, c1), (Inl e2, c2)) \<Rightarrow>
                           (searchError (if ticketFirst then e1 else e2), c1 @ c2))))"

section \<open>The dashboard's data hook\<close>

text \<open>
  The dashboard calls the ticket route and the conversations route of this application
  with the decimal rendering of the ticket number. \<open>reason\<close> is the status text the
  browser reports for a status code. The routes' \<open>details\<close> are strings, and both
  routes answer with JSON; the dashboard holds the values as the routes built them.
\<close>

definition responseOk :: "NextResponse \<Rightarrow> bool" where
  "responseOk response = (200 \<le> resp_status response \<and> resp_status response \<le> 299)"

definition response_json :: "NextResponse \<Rightarrow> jsval" where
  "response_json response =
     (case resp_body response of JsonBody v \<Rightarrow> v | BlobBody b \<Rightarrow> JObj [(''error'', JStr ''Unknown error'')])"

text \<open>\<open>errorData.details || fallback\<close>, as the message of a new \<open>Error\<close>.\<close>

definition detailsOr :: "jsval \<Rightarrow> string \<Rightarrow> string" where
  "detailsOr errorData fallback =
     (case get errorData ''details'' of
        JStr s \<Rightarrow> if s \<noteq> [] then s else fallback
      | _ \<Rightarrow> fallback)"

definition fetchTicketDetails ::
  "(nat \<Rightarrow> string) \<Rightarrow> process_env \<Rightarrow> upstream \<Rightarrow> int \<Rightarrow> (js_error + jsval) \<times> string list" where
  "fetchTicketDetails reason env fetch ticketId =
     (case tickets_GET env fetch (show_int ticketId) of
        (response, calls) \<Rightarrow>
          if \<not> responseOk response then
            (if resp_status response = 404
             then (Inl (JsError ''Error'' (''Ticket #'' @ show_int ticketId @ '' not found'')),
                   calls)
             else (Inl (JsError ''Error''
                     (detailsOr (response_json response)
                        (''Failed to fetch ticket: '' @ reason (resp_status response)))),
                   calls))
          else (Inr (response_json response), calls))"

definition fetchConversations ::
  "(nat \<Rightarrow> string) \<Rightarrow> process_env \<Rightarrow> upstream \<Rightarrow> int \<Rightarrow> (js_error + jsval) \<times> string list" where
  "fetchConversations reason env fetch ticketId =
     (case conversations_GET env fetch (show_int ticketId) of
        (response, calls) \<Rightarrow>
          if \<not> responseOk response then
            (if resp_status response = 404
             then (Inr (JArr []), calls)
             else (Inl (JsError ''Error''
                     (detailsOr (response_json response)
                        (''Failed to fetch conversations: '' @ reason (resp_status response)))),
                   calls))
          else (Inr (response_json response), calls))"

text \<open>The state \<open>useFreshdeskData\<close> returns once \<open>loadData\<close> has finished.\<close>

record dashboard_data =
  ticket :: jsval
  conversations :: jsval
  loading :: bool
  error :: "string option"

definition loadData ::
  "(nat \<Rightarrow> string) \<Rightarrow> process_env \<Rightarrow> upstream \<Rightarrow> int \<Rightarrow> dashboard_data \<times> string list" where
  "loadData reason env fetch ticketId =
     (case fetchTicketDetails reason env fetch ticketId of
        (Inl err, c1) \<Rightarrow>
          (\<lparr>ticket = JNull, conversations = JArr [], loading = False,
            error = Some (err_message err)\<rparr>, c1)
      | (Inr ticketData, c1) \<Rightarrow>
          (case fetchConversations reason env fetch ticketId of
             (Inl convError, c2) \<Rightarrow>
               (\<lparr>ticket = ticketData, conversations = JArr [], loading = False,
                 error = None\<rparr>, c1 @ c2)
           | (Inr conversationData, c2) \<Rightarrow>
               (\<lparr>ticket = ticketData, conversations = conversationData, loading = False,
                 error = None\<rparr>, c1 @ c2)))"

definition useFreshdeskData ::
  "(nat \<Rightarrow> string) \<Rightarrow> process_env \<Rightarrow> upstream \<Rightarrow> int option
     \<Rightarrow> dashboard_data \<times> string list" where
  "useFreshdeskData reason env fetch ticketId =
     (case ticketId of
        None \<Rightarrow> (\<lparr>ticket = JNull, conversations = JArr [], loading = False, error = None\<rparr>, [])
      | Some n \<Rightarrow>
          if n = 0
          then (\<lparr>ticket = JNull, conversations = JArr [], loading = False, error = None\<rparr>, [])
          else loadData reason env fetch n)"

section \<open>Concrete inputs\<close>

text \<open>
  Inputs on which the theorems below are evaluated: two environments, an upstream service
  that answers 404 to every request, one that serves a file without a
  \<open>content-disposition\<close> header, and one that has ticket 12 but no conversations for it.
\<close>

definition env_acme :: process_env where
  "env_acme = \<lparr>FRESHDESK_DOMAIN = Some ''acme'', FRESHDESK_API_KEY = Some ''key''\<rparr>"

definition env_placeholder :: process_env where
  "env_placeholder = \<lparr>FRESHDESK_DOMAIN = Some ''your-domain'', FRESHDESK_API_KEY = Some ''key''\<rparr>"

definition env_empty :: process_env where
  "env_empty = \<lparr>FRESHDESK_DOMAIN = None, FRESHDESK_API_KEY = None\<rparr>"

definition no_header :: "string \<Rightarrow> string option" where
  "no_header name = None"

definition not_found_response :: http_response where
  "not_found_response =
     \<lparr>status = 404, statusText = ''Not Found'', headers = no_header, body_text = [],
      body_json = Inl (JsError ''SyntaxError'' ''Unexpected end of JSON input'')\<rparr>"

definition upstream_not_found :: upstream where
  "upstream_not_found url = Responded not_found_response"

definition upstream_plain_file :: upstream where
  "upstream_plain_file url =
     Responded \<lparr>status = 200, statusText = ''OK'', headers = no_header, body_text = ''%PDF'',
                body_json = Inl (JsError ''SyntaxError'' ''Unexpected token %'')\<rparr>"

definition upstream_ticket_only :: upstream where
  "upstream_ticket_only url =
     (if url = ''https://acme.freshdesk.com/api/v2/tickets/12''
      then Responded \<lparr>status = 200, statusText = ''OK'', headers = no_header, body_text = [],
                      body_json = Inr (JObj [(''id'', JNum 12), (''subject'', JStr ''Printer'')])\<rparr>
      else Responded not_found_response)"

definition no_params :: "(string \<times> string) list \<Rightarrow> string" where
  "no_params ps = []"

definition no_reason :: "nat \<Rightarrow> string" where
  "no_reason code = []"

section \<open>Normalisation of a ticket\<close>

text \<open>
  C4. The status of the normalised ticket: the upstream codes 2, 3, 4 and 5 become
  \<open>open\<close>, \<open>pending\<close>, \<open>resolved\<close> and \<open>closed\<close>; any other value of the field, a
  missing one (\<open>undefined\<close>) included, becomes \<open>open\<close>. Every payload other than
  \<open>null\<close> is normalised.
\<close>

theorem status_normalization:
  assumes "\<not> nullish ticketData"
  shows "\<exists>t. transformedTicket ticketData = Inr t \<and>
     (get ticketData ''status'' = JNum 2 \<longrightarrow> get t ''status'' = JStr ''open'') \<and>
     (get ticketData ''status'' = JNum 3 \<longrightarrow> get t ''status'' = JStr ''pending'') \<and>
     (get ticketData ''status'' = JNum 4 \<longrightarrow> get t ''status'' = JStr ''resolved'') \<and>
     (get ticketData ''status'' = JNum 5 \<longrightarrow> get t ''status'' = JStr ''closed'') \<and>
     (get ticketData ''status'' \<notin> {JNum 2, JNum 3, JNum 4, JNum 5}
        \<longrightarrow> get t ''status'' = JStr ''open'')"
  using assms by (simp add: transformedTicket_def read_member_def ticket_status_def)

theorem status_normalization_witness:
  "\<not> nullish (JObj [(''id'', JNum 7), (''status'', JNum 4)]) \<and>
   (\<exists>t. transformedTicket (JObj [(''id'', JNum 7), (''status'', JNum 4)]) = Inr t \<and>
        get t ''status'' = JStr ''resolved'') \<and>
   \<not> nullish (JObj [(''id'', JNum 7)]) \<and>
   (\<exists>t. transformedTicket (JObj [(''id'', JNum 7)]) = Inr t \<and> get t ''status'' = JStr ''open'')"
  using status_normalization [of "JObj [(''id'', JNum 7), (''status'', JNum 4)]"]
    status_normalization [of "JObj [(''id'', JNum 7)]"]
  by (simp add: nullish_def)

text \<open>
  C5. The priority of the normalised ticket: the upstream codes 1, 2, 3 and 4 become
  \<open>low\<close>, \<open>medium\<close>, \<open>high\<close> and \<open>urgent\<close>; any other value of the field, a missing
  one included, becomes \<open>medium\<close>.
\<close>

theorem priority_normalization:
  assumes "\<not> nullish ticketData"
  shows "\<exists>t. transformedTicket ticketData = Inr t \<and>
     (get ticketData ''priority'' = JNum 1 \<longrightarrow> get t ''priority'' = JStr ''low'') \<and>
     (get ticketData ''priority'' = JNum 2 \<longrightarrow> get t ''priority'' = JStr ''medium'') \<and>
     (get ticketData ''priority'' = JNum 3 \<longrightarrow> get t ''priority'' = JStr ''high'') \<and>
     (get ticketData ''priority'' = JNum 4 \<longrightarrow> get t ''priority'' = JStr ''urgent'') \<and>
     (get ticketData ''priority'' \<notin> {JNum 1, JNum 2, JNum 3, JNum 4}
        \<longrightarrow> get t ''priority'' = JStr ''medium'')"
  using assms by (simp add: transformedTicket_def read_member_def ticket_priority_def)

theorem priority_normalization_witness:
  "\<not> nullish (JObj [(''priority'', JNum 4)]) \<and>
   (\<exists>t. transformedTicket (JObj [(''priority'', JNum 4)]) = Inr t \<and>
        get t ''priority'' = JStr ''urgent'') \<and>
   \<not> nullish (JObj [(''priority'', JStr ''high'')]) \<and>
   (\<exists>t. transformedTicket (JObj [(''priority'', JStr ''high'')]) = Inr t \<and>
        get t ''priority'' = JStr ''medium'')"
  using priority_normalization [of "JObj [(''priority'', JNum 4)]"]
    priority_normalization [of "JObj [(''priority'', JStr ''high'')]"]
  by (simp add: nullish_def)

text \<open>
  C7. A payload without \<open>responder_id\<close> (the property is missing or \<open>null\<close>) is
  normalised to a ticket with no agent: the \<open>agent\<close> property is \<open>undefined\<close>, which the
  JSON response leaves out. A payload that has a responder identifier (a value the
  route's test \<open>ticketData.responder_id ? ... : undefined\<close> accepts, such as a non-zero
  number) and no responder name gets the agent name \<open>Unassigned\<close>.
\<close>

theorem agent_normalization:
  assumes "\<not> nullish ticketData"
  shows "\<exists>t. transformedTicket ticketData = Inr t \<and>
     (nullish (get ticketData ''responder_id'') \<longrightarrow> get t ''agent'' = JUndefined) \<and>
     (truthy (get ticketData ''responder_id'')
        \<and> \<not> truthy (opt_get (get ticketData ''responder'') ''name'')
        \<longrightarrow> get (get t ''agent'') ''name'' = JStr ''Unassigned'')"
  using assms
  by (auto simp add: transformedTicket_def read_member_def nullish_def js_or_def)

theorem agent_normalization_witness:
  "\<not> nullish (JObj [(''id'', JNum 7)]) \<and>
   (\<exists>t. transformedTicket (JObj [(''id'', JNum 7)]) = Inr t \<and> get t ''agent'' = JUndefined) \<and>
   \<not> nullish (JObj [(''id'', JNum 7), (''responder_id'', JNum 31)]) \<and>
   (\<exists>t. transformedTicket (JObj [(''id'', JNum 7), (''responder_id'', JNum 31)]) = Inr t \<and>
        get (get t ''agent'') ''name'' = JStr ''Unassigned'')"
  using agent_normalization [of "JObj [(''id'', JNum 7)]"]
    agent_normalization [of "JObj [(''id'', JNum 7), (''responder_id'', JNum 31)]"]
  by (simp add: nullish_def opt_get_def)

section \<open>Normalisation of a conversation\<close>

lemma takeWhile_local_part:
  "CHR ''@'' \<notin> set l \<Longrightarrow> takeWhile (\<lambda>c. c \<noteq> CHR ''@'') (l @ CHR ''@'' # d) = l"
  by (induction l) auto

text \<open>
  C8. The author name of a normalised conversation is the user's name when there is one;
  failing that, the local part \<open>l\<close> of a sender address \<open>l@d\<close> (the text before the first
  \<open>@\<close>, when it is not empty); failing both (no user name and no sender address),
  \<open>Unknown\<close>. In each case the conversation is normalised without an error.
\<close>

theorem author_name_resolution:
  assumes "\<not> nullish conv"
  shows
    "(truthy (opt_get (get conv ''user'') ''name'') \<longrightarrow>
        (\<exists>t. transformConversation conv = Inr t \<and>
             get (get t ''user'') ''name'' = opt_get (get conv ''user'') ''name'')) \<and>
     (\<not> truthy (opt_get (get conv ''user'') ''name'') \<and>
      get conv ''from_email'' = JStr (l @ CHR ''@'' # d) \<and> CHR ''@'' \<notin> set l \<and> l \<noteq> [] \<longrightarrow>
        (\<exists>t. transformConversation conv = Inr t \<and>
             get (get t ''user'') ''name'' = JStr l)) \<and>
     (\<not> truthy (opt_get (get conv ''user'') ''name'') \<and> nullish (get conv ''from_email'') \<longrightarrow>
        (\<exists>t. transformConversation conv = Inr t \<and>
             get (get t ''user'') ''name'' = JStr ''Unknown''))"
  using assms
  by (auto simp add: transformConversation_def read_member_def userName_def
      emailLocalPart_def js_or_def takeWhile_local_part nullish_def)

theorem author_name_resolution_witness:
  "\<not> nullish (JObj [(''from_email'', JStr ''jane@example.com'')]) \<and>
   (\<exists>t. transformConversation (JObj [(''from_email'', JStr ''jane@example.com'')]) = Inr t \<and>
        get (get t ''user'') ''name'' = JStr ''jane'') \<and>
   (\<exists>t. transformConversation
          (JObj [(''from_email'', JStr ''jane@example.com''),
                 (''user'', JObj [(''name'', JStr ''Jane Doe'')])]) = Inr t \<and>
        get (get t ''user'') ''name'' = JStr ''Jane Doe'') \<and>
   (\<exists>t. transformConversation (JObj [(''body'', JStr ''hello'')]) = Inr t \<and>
        get (get t ''user'') ''name'' = JStr ''Unknown'')"
  using author_name_resolution
      [of "JObj [(''from_email'', JStr ''jane@example.com'')]" "''jane''" "''example.com''"]
    author_name_resolution
      [of "JObj [(''from_email'', JStr ''jane@example.com''),
                 (''user'', JObj [(''name'', JStr ''Jane Doe'')])]" "[]" "[]"]
    author_name_resolution [of "JObj [(''body'', JStr ''hello'')]" "[]" "[]"]
  by (simp add: nullish_def opt_get_def)

section \<open>The base URL\<close>

lemma replace_absent: "\<not> str_includes s p \<Longrightarrow> p \<noteq> [] \<Longrightarrow> replace s p r = s"
  by (induction s) auto

lemma suffix_no_overlap:
  assumes "startsWith (d @ ''.freshdesk.com'') ''.freshdesk.com''" and "d \<noteq> []"
  shows "startsWith d ''.freshdesk.com''"
proof (cases "14 \<le> length d")
  case True
  have len: "length ''.freshdesk.com'' = 14" by simp
  have "take 14 (d @ ''.freshdesk.com'') = ''.freshdesk.com''"
    using assms(1) unfolding startsWith_def len .
  then have "take 14 d = ''.freshdesk.com''"
    using True unfolding take_append by simp
  then show ?thesis unfolding startsWith_def len .
next
  case False
  define k where "k = length d"
  have k: "k = 1 \<or> k = 2 \<or> k = 3 \<or> k = 4 \<or> k = 5 \<or> k = 6 \<or> k = 7 \<or> k = 8 \<or> k = 9
      \<or> k = 10 \<or> k = 11 \<or> k = 12 \<or> k = 13"
  proof -
    have "0 < k" and "k < 14" using False assms(2) by (simp_all add: k_def)
    then show ?thesis by arith
  qed
  have len: "length ''.freshdesk.com'' = 14" by simp
  have "take 14 (d @ ''.freshdesk.com'') = ''.freshdesk.com''"
    using assms(1) unfolding startsWith_def len .
  then have "d @ take (14 - k) ''.freshdesk.com'' = ''.freshdesk.com''"
    using False unfolding k_def take_append by simp
  then have "take (14 - k) ''.freshdesk.com'' = drop k ''.freshdesk.com''"
    by (simp add: append_eq_conv_conj k_def)
  with k have False
    by (elim disjE) simp_all
  then show ?thesis ..
qed

lemma replace_suffix:
  "\<not> str_includes d ''.freshdesk.com'' \<Longrightarrow> replace (d @ ''.freshdesk.com'') ''.freshdesk.com'' [] = d"
proof (induction d)
  case Nil
  show ?case by (simp add: startsWith_def)
next
  case (Cons c cs)
  from Cons.prems have no: "\<not> startsWith (c # cs) ''.freshdesk.com''"
    and rest: "\<not> str_includes cs ''.freshdesk.com''"
    by simp_all
  have "\<not> startsWith ((c # cs) @ ''.freshdesk.com'') ''.freshdesk.com''"
    using suffix_no_overlap [of "c # cs"] no by blast
  then have "replace ((c # cs) @ ''.freshdesk.com'') ''.freshdesk.com'' []
      = c # replace (cs @ ''.freshdesk.com'') ''.freshdesk.com'' []"
    by simp
  with Cons.IH [OF rest] show ?case by simp
qed

text \<open>
  C9. For a configured domain \<open>d\<close> that does not contain \<open>.freshdesk.com\<close>, the client
  built from \<open>d\<close> and the client built from \<open>d.freshdesk.com\<close> have the same base URL,
  \<open>https://d.freshdesk.com/api/v2\<close>.
\<close>

theorem baseUrl_suffix_insensitive:
  assumes "\<not> str_includes d ''.freshdesk.com''"
  shows "baseUrl \<lparr>domain = d, apiKey = k\<rparr> = ''https://'' @ d @ ''.freshdesk.com/api/v2'' \<and>
         baseUrl \<lparr>domain = d @ ''.freshdesk.com'', apiKey = k\<rparr>
           = ''https://'' @ d @ ''.freshdesk.com/api/v2''"
  using assms by (simp add: baseUrl_def replace_absent replace_suffix del: replace.simps)

theorem baseUrl_suffix_insensitive_witness:
  "\<not> str_includes ''acme'' ''.freshdesk.com'' \<and>
   baseUrl \<lparr>domain = ''acme'', apiKey = ''key''\<rparr> = ''https://acme.freshdesk.com/api/v2'' \<and>
   baseUrl \<lparr>domain = ''acme.freshdesk.com'', apiKey = ''key''\<rparr>
     = ''https://acme.freshdesk.com/api/v2''"
  using baseUrl_suffix_insensitive [of "''acme''" "''key''"]
  by (simp add: startsWith_def)

section \<open>Validation of the identifier\<close>

lemma status_ticketFetchError: "resp_status (ticketFetchError e n) \<noteq> 400"
  by (simp add: ticketFetchError_def NextResponse_json_def)

lemma status_conversationsFetchError: "resp_status (conversationsFetchError e n) \<noteq> 400"
  by (simp add: conversationsFetchError_def NextResponse_json_def)

lemma tickets_GET_400_iff:
  "resp_status (fst (tickets_GET env fetch params_id)) = 400
     \<longleftrightarrow> (parseInt params_id 0 = None \<or> parseInt params_id 0 = Some 0)"
proof (cases "parseInt params_id 0")
  case None
  then show ?thesis
    by (simp add: tickets_GET_def not_number_def NextResponse_json_def)
next
  case (Some n)
  then show ?thesis
    by (simp add: tickets_GET_def not_number_def NextResponse_json_def domainError_def
      apiKeyError_def status_ticketFetchError split: prod.splits sum.splits)
qed

lemma conversations_GET_400_iff:
  "resp_status (fst (conversations_GET env fetch params_id)) = 400
     \<longleftrightarrow> (parseInt params_id 0 = None \<or> parseInt params_id 0 = Some 0)"
proof (cases "parseInt params_id 0")
  case None
  then show ?thesis
    by (simp add: conversations_GET_def not_number_def NextResponse_json_def)
next
  case (Some n)
  then show ?thesis
    by (simp add: conversations_GET_def not_number_def NextResponse_json_def domainError_def
      apiKeyError_def status_conversationsFetchError split: prod.splits sum.splits)
qed

lemma attachments_GET_400_iff:
  "resp_status (fst (attachments_GET env fetch params_id rf)) = 400
     \<longleftrightarrow> (parseInt params_id 0 = None \<or> parseInt params_id 0 = Some 0)"
proof (cases "parseInt params_id 0")
  case None
  then show ?thesis
    by (simp add: attachments_GET_def not_number_def NextResponse_json_def)
next
  case (Some n)
  then show ?thesis
    by (simp add: attachments_GET_def not_number_def NextResponse_json_def downloadError_def
      Let_def split: prod.splits sum.splits)
qed


lemma getTicket_calls:
  "snd (getTicket fetch config n) = [baseUrl config @ ''/tickets/'' @ show_int n]"
  by (simp add: getTicket_def Let_def split: sum.splits fetch_outcome.splits)

lemma getConversations_calls:
  "snd (getConversations fetch config n page) =
     [baseUrl config @ ''/tickets/'' @ show_int n @ ''/conversations?page='' @ show_nat page
        @ ''&per_page=100'']"
  by (simp add: getConversations_def Let_def split: sum.splits fetch_outcome.splits)

lemma getAttachment_calls:
  "snd (getAttachment fetch config n) = [baseUrl config @ ''/attachments/'' @ show_int n]"
  by (simp add: getAttachment_def Let_def split: sum.splits fetch_outcome.splits)

lemma show_nat_1: "show_nat (Suc 0) = ''1''"
  by (simp add: show_nat.simps)

lemma tickets_GET_calls:
  assumes "parseInt params_id 0 = Some n" and "n \<noteq> 0"
    and "domain (freshdeskConfig env) \<noteq> []" and "domain (freshdeskConfig env) \<noteq> ''your-domain''"
    and "apiKey (freshdeskConfig env) \<noteq> []" and "apiKey (freshdeskConfig env) \<noteq> ''your-api-key''"
  shows "snd (tickets_GET env fetch params_id) =
           [baseUrl (freshdeskConfig env) @ ''/tickets/'' @ show_int n]"
proof -
  have "snd (tickets_GET env fetch params_id) = snd (getTicket fetch (freshdeskConfig env) n)"
    using assms by (simp add: tickets_GET_def not_number_def split: prod.splits sum.splits)
  then show ?thesis by (simp add: getTicket_calls)
qed

lemma conversations_GET_calls:
  assumes "parseInt params_id 0 = Some n" and "n \<noteq> 0"
    and "domain (freshdeskConfig env) \<noteq> []" and "domain (freshdeskConfig env) \<noteq> ''your-domain''"
    and "apiKey (freshdeskConfig env) \<noteq> []" and "apiKey (freshdeskConfig env) \<noteq> ''your-api-key''"
  shows "snd (conversations_GET env fetch params_id) =
           [baseUrl (freshdeskConfig env) @ ''/tickets/'' @ show_int n
              @ ''/conversations?page=1&per_page=100'']"
proof -
  have "snd (conversations_GET env fetch params_id)
          = snd (getConversations fetch (freshdeskConfig env) n 1)"
    using assms by (simp add: conversations_GET_def not_number_def split: prod.splits sum.splits)
  then show ?thesis by (simp add: getConversations_calls show_nat_1)
qed

lemma env_unset_iff: "env_unset v \<longleftrightarrow> env_or_empty v = []"
  by (simp add: env_unset_def env_or_empty_def split: option.splits)

lemma attachments_GET_calls:
  assumes "parseInt params_id 0 = Some n" and "n \<noteq> 0"
    and "domain (freshdeskConfig env) \<noteq> []" and "apiKey (freshdeskConfig env) \<noteq> []"
  shows "snd (attachments_GET env fetch params_id rf) =
           [baseUrl (freshdeskConfig env) @ ''/attachments/'' @ show_int n]"
proof -
  have "\<not> env_unset (FRESHDESK_DOMAIN env)" and "\<not> env_unset (FRESHDESK_API_KEY env)"
    using assms(3,4) by (simp_all add: env_unset_iff freshdeskConfig_def)
  then have "snd (attachments_GET env fetch params_id rf)
          = snd (getAttachment fetch (freshdeskConfig env) n)"
    using assms(1,2)
    by (simp add: attachments_GET_def not_number_def Let_def split: prod.splits sum.splits)
  then show ?thesis by (simp add: getAttachment_calls)
qed

lemma parseInt_12abc: "parseInt ''12abc'' 0 = Some 12"
  by (simp add: parseInt_def isStrWhiteSpaceChar_def digitValue_def mathInt_def)

lemma parseInt_minus_5: "parseInt ''-5'' 0 = Some (- 5)"
  by (simp add: parseInt_def isStrWhiteSpaceChar_def digitValue_def mathInt_def)

lemma show_int_12: "show_int 12 = ''12''"
  by (simp add: show_int_def show_nat.simps)

lemma show_int_minus_5: "show_int (- 5) = ''-5''"
  by (simp add: show_int_def show_nat.simps)

text \<open>
  C10. The ticket, the conversations and the attachment route answer 400 exactly when
  \<open>Number.parseInt\<close> of the identifier is NaN or 0. So \<open>12abc\<close> is read as 12 and
  \<open>-5\<close> as -5, and with a valid configuration both are accepted: the route requests
  ticket (or attachment) 12, respectively -5, from the upstream service.
\<close>

theorem identifier_rejected_iff:
  "(resp_status (fst (tickets_GET env fetch params_id)) = 400
      \<longleftrightarrow> (parseInt params_id 0 = None \<or> parseInt params_id 0 = Some 0)) \<and>
   (resp_status (fst (conversations_GET env fetch params_id)) = 400
      \<longleftrightarrow> (parseInt params_id 0 = None \<or> parseInt params_id 0 = Some 0)) \<and>
   (resp_status (fst (attachments_GET env fetch params_id requestedFilename)) = 400
      \<longleftrightarrow> (parseInt params_id 0 = None \<or> parseInt params_id 0 = Some 0)) \<and>
   parseInt ''12abc'' 0 = Some 12 \<and> parseInt ''-5'' 0 = Some (- 5) \<and>
   (domain (freshdeskConfig env) \<notin> {[], ''your-domain''} \<and>
    apiKey (freshdeskConfig env) \<notin> {[], ''your-api-key''} \<longrightarrow>
      snd (tickets_GET env fetch ''12abc'') = [baseUrl (freshdeskConfig env) @ ''/tickets/12''] \<and>
      snd (tickets_GET env fetch ''-5'') = [baseUrl (freshdeskConfig env) @ ''/tickets/-5''] \<and>
      snd (conversations_GET env fetch ''12abc'') =
        [baseUrl (freshdeskConfig env) @ ''/tickets/12/conversations?page=1&per_page=100''] \<and>
      snd (conversations_GET env fetch ''-5'') =
        [baseUrl (freshdeskConfig env) @ ''/tickets/-5/conversations?page=1&per_page=100''] \<and>
      snd (attachments_GET env fetch ''12abc'' requestedFilename) =
        [baseUrl (freshdeskConfig env) @ ''/attachments/12''] \<and>
      snd (attachments_GET env fetch ''-5'' requestedFilename) =
        [baseUrl (freshdeskConfig env) @ ''/attachments/-5''])"
proof -
  have accepted: "snd (tickets_GET env fetch ''12abc'') = [baseUrl (freshdeskConfig env) @ ''/tickets/12''] \<and>
      snd (tickets_GET env fetch ''-5'') = [baseUrl (freshdeskConfig env) @ ''/tickets/-5''] \<and>
      snd (conversations_GET env fetch ''12abc'') =
        [baseUrl (freshdeskConfig env) @ ''/tickets/12/conversations?page=1&per_page=100''] \<and>
      snd (conversations_GET env fetch ''-5'') =
        [baseUrl (freshdeskConfig env) @ ''/tickets/-5/conversations?page=1&per_page=100''] \<and>
      snd (attachments_GET env fetch ''12abc'' requestedFilename) =
        [baseUrl (freshdeskConfig env) @ ''/attachments/12''] \<and>
      snd (attachments_GET env fetch ''-5'' requestedFilename) =
        [baseUrl (freshdeskConfig env) @ ''/attachments/-5'']"
    if "domain (freshdeskConfig env) \<notin> {[], ''your-domain''}"
      and "apiKey (freshdeskConfig env) \<notin> {[], ''your-api-key''}"
    using that
      tickets_GET_calls [OF parseInt_12abc, of env fetch]
      tickets_GET_calls [OF parseInt_minus_5, of env fetch]
      conversations_GET_calls [OF parseInt_12abc, of env fetch]
      conversations_GET_calls [OF parseInt_minus_5, of env fetch]
      attachments_GET_calls [OF parseInt_12abc, of env fetch requestedFilename]
      attachments_GET_calls [OF parseInt_minus_5, of env fetch requestedFilename]
    by (simp add: show_int_12 show_int_minus_5)
  show ?thesis
    using accepted
    by (simp only: tickets_GET_400_iff conversations_GET_400_iff attachments_GET_400_iff
        parseInt_12abc parseInt_minus_5) blast
qed

theorem identifier_rejected_iff_witness:
  "resp_status (fst (tickets_GET env_acme upstream_not_found ''abc'')) = 400 \<and>
   resp_status (fst (tickets_GET env_acme upstream_not_found ''12abc'')) \<noteq> 400 \<and>
   snd (tickets_GET env_acme upstream_not_found ''12abc'')
     = [''https://acme.freshdesk.com/api/v2/tickets/12''] \<and>
   snd (conversations_GET env_acme upstream_not_found ''-5'')
     = [''https://acme.freshdesk.com/api/v2/tickets/-5/conversations?page=1&per_page=100''] \<and>
   snd (attachments_GET env_acme upstream_not_found ''-5'' None)
     = [''https://acme.freshdesk.com/api/v2/attachments/-5'']"
  using identifier_rejected_iff [of env_acme upstream_not_found "''abc''" None]
    identifier_rejected_iff [of env_acme upstream_not_found "''12abc''" None]
  by (simp add: parseInt_def isStrWhiteSpaceChar_def digitValue_def mathInt_def
      freshdeskConfig_def env_or_empty_def baseUrl_def startsWith_def env_acme_def)

text \<open>
  An identifier that is not numeric does not parse: when, after leading white space and
  a sign, no digit follows, \<open>Number.parseInt\<close> gives NaN.
\<close>

lemma index_of_append:
  "c \<notin> set xs \<Longrightarrow>
     index_of c (xs @ ys) = (case index_of c ys of None \<Rightarrow> None | Some i \<Rightarrow> Some (length xs + i))"
  by (induction xs) (auto split: option.splits)

lemma digitValue_letter:
  assumes "\<not> isDigit c" and "digitValue c = Some d"
  shows "10 \<le> d"
proof -
  have notin: "c \<notin> set ''0123456789''"
    using assms(1) unfolding isDigit_def .
  have len: "length ''0123456789'' = 10" by simp
  have lower: "index_of c (''0123456789'' @ ''abcdefghijklmnopqrstuvwxyz'')
      = (case index_of c ''abcdefghijklmnopqrstuvwxyz'' of None \<Rightarrow> None | Some i \<Rightarrow> Some (10 + i))"
    unfolding index_of_append [OF notin] len ..
  have upper: "index_of c (''0123456789'' @ ''ABCDEFGHIJKLMNOPQRSTUVWXYZ'')
      = (case index_of c ''ABCDEFGHIJKLMNOPQRSTUVWXYZ'' of None \<Rightarrow> None | Some i \<Rightarrow> Some (10 + i))"
    unfolding index_of_append [OF notin] len ..
  have split: "''0123456789abcdefghijklmnopqrstuvwxyz'' = ''0123456789'' @ ''abcdefghijklmnopqrstuvwxyz''"
    "''0123456789ABCDEFGHIJKLMNOPQRSTUVWXYZ'' = ''0123456789'' @ ''ABCDEFGHIJKLMNOPQRSTUVWXYZ''"
    by simp_all
  show ?thesis
    using assms(2) unfolding digitValue_def split lower upper
    by (cases "index_of c ''abcdefghijklmnopqrstuvwxyz''";
        cases "index_of c ''ABCDEFGHIJKLMNOPQRSTUVWXYZ''") auto
qed

lemma radixDigits_no_digit: "\<not> isDigit c \<Longrightarrow> radixDigits 10 (c # cs) = []"
  using digitValue_letter [of c] by (cases "digitValue c") (auto simp del: not_less)

lemma parseInt_no_leading_digit:
  assumes S: "S = dropWhile isStrWhiteSpaceChar params_id"
    and S1: "S1 = (if S \<noteq> [] \<and> (hd S = CHR ''+'' \<or> hd S = CHR ''-'') then tl S else S)"
    and "S1 = [] \<or> \<not> isDigit (hd S1)"
  shows "parseInt params_id 0 = None"
proof -
  have nohex: "take 2 S1 \<noteq> ''0x'' \<and> take 2 S1 \<noteq> ''0X''"
  proof (cases S1)
    case Nil
    then show ?thesis by simp
  next
    case (Cons c cs)
    with assms(3) have "c \<noteq> CHR ''0''" by (auto simp add: isDigit_def)
    with Cons show ?thesis by (auto simp add: numeral_2_eq_2)
  qed
  have nodigits: "radixDigits 10 S1 = []"
  proof (cases S1)
    case Nil
    then show ?thesis by simp
  next
    case (Cons c cs)
    with assms(3) have "\<not> isDigit c" by simp
    then show ?thesis using radixDigits_no_digit [of c cs] Cons by simp
  qed
  have "parseInt params_id 0 =
      (if take 2 S1 = ''0x'' \<or> take 2 S1 = ''0X''
       then (if radixDigits 16 (drop 2 S1) = [] then None
             else Some ((if S \<noteq> [] \<and> hd S = CHR ''-'' then - 1 else 1)
                        * int (mathInt 16 (radixDigits 16 (drop 2 S1)))))
       else (if radixDigits 10 S1 = [] then None
             else Some ((if S \<noteq> [] \<and> hd S = CHR ''-'' then - 1 else 1)
                        * int (mathInt 10 (radixDigits 10 S1)))))"
    unfolding parseInt_def Let_def S [symmetric] S1 [symmetric] by simp
  with nohex nodigits show ?thesis by simp
qed

text \<open>
  An identifier that begins, after white space and a sign, with zeros that no further
  digit and no \<open>x\<close> follows parses to 0.
\<close>

lemma radixDigits_zeros:
  "rest = [] \<or> \<not> isDigit (hd rest) \<Longrightarrow>
     radixDigits 10 (replicate k (CHR ''0'') @ rest) = replicate k 0"
proof (induction k)
  case 0
  then show ?case
    using radixDigits_no_digit [of "hd rest" "tl rest"] by (cases rest) auto
next
  case (Suc k)
  then show ?case by (simp add: digitValue_def)
qed

lemma mathInt_zeros: "mathInt 10 (replicate k 0) = 0"
  unfolding mathInt_def by (induction k) simp_all

lemma parseInt_leading_zeros:
  assumes S: "S = dropWhile isStrWhiteSpaceChar params_id"
    and S1: "S1 = (if S \<noteq> [] \<and> (hd S = CHR ''+'' \<or> hd S = CHR ''-'') then tl S else S)"
    and k: "0 < k" and form: "S1 = replicate k (CHR ''0'') @ rest"
    and rest: "rest = [] \<or>
           (\<not> isDigit (hd rest) \<and> hd rest \<noteq> CHR ''x'' \<and> hd rest \<noteq> CHR ''X'')"
  shows "parseInt params_id 0 = Some 0"
proof -
  obtain j where j: "k = Suc j" using k by (cases k) auto
  have nohex: "take 2 S1 \<noteq> ''0x'' \<and> take 2 S1 \<noteq> ''0X''"
  proof (cases j)
    case 0
    then show ?thesis
      using rest j form by (cases rest) (auto simp add: numeral_2_eq_2)
  next
    case (Suc i)
    then show ?thesis using j form by (simp add: numeral_2_eq_2)
  qed
  have digits: "radixDigits 10 S1 = replicate k 0"
    using radixDigits_zeros [of rest k] rest form by auto
  then have nonempty: "radixDigits 10 S1 \<noteq> []"
    using j by simp
  have "parseInt params_id 0 =
      (if take 2 S1 = ''0x'' \<or> take 2 S1 = ''0X''
       then (if radixDigits 16 (drop 2 S1) = [] then None
             else Some ((if S \<noteq> [] \<and> hd S = CHR ''-'' then - 1 else 1)
                        * int (mathInt 16 (radixDigits 16 (drop 2 S1)))))
       else (if radixDigits 10 S1 = [] then None
             else Some ((if S \<noteq> [] \<and> hd S = CHR ''-'' then - 1 else 1)
                        * int (mathInt 10 (radixDigits 10 S1)))))"
    unfolding parseInt_def Let_def S [symmetric] S1 [symmetric] by simp
  with nohex nonempty show ?thesis
    by (simp add: digits mathInt_zeros)
qed

lemma not_number_rejected:
  assumes "parseInt params_id 0 = None \<or> parseInt params_id 0 = Some 0"
  shows "tickets_GET env fetch params_id =
           (NextResponse_json (JObj [(''error'', JStr ''Invalid ticket ID'')]) 400, []) \<and>
         conversations_GET env fetch params_id =
           (NextResponse_json (JObj [(''error'', JStr ''Invalid ticket ID'')]) 400, []) \<and>
         attachments_GET env fetch params_id requestedFilename =
           (NextResponse_json (JObj [(''error'', JStr ''Invalid attachment ID'')]) 400, [])"
  using assms
  by (auto simp add: tickets_GET_def conversations_GET_def attachments_GET_def not_number_def)

text \<open>
  The search route tests the query against \<^verbatim>\<open>/^\d+$/\<close> before it parses it, and
  answers \<open>12abc\<close> with 400 and no upstream request.
\<close>

lemma search_rejects_numeric_prefix:
  "search_GET no_params True env_acme upstream_not_found (Some ''12abc'') (Some ''number'')
     = (NextResponse_json
          (JObj [(''error'', JStr ''Could not extract ticket ID from input''),
                 (''details'', JStr ''Please provide a valid ticket number or Freshdesk URL'')])
          400, [])"
  by code_simp

text \<open>
  C2, as stated, fails on the code. The identifier \<open>12abc\<close> is not numeric, but
  \<open>Number.parseInt\<close> reads its numeric prefix: the ticket, the conversations and the
  attachment route do not answer 400; each requests ticket (or attachment) 12 from the
  upstream service, whose 404 it then reports with status 500.
\<close>

theorem numeric_prefix_counterexample:
  "resp_status (fst (tickets_GET env_acme upstream_not_found ''12abc'')) = 500 \<and>
   snd (tickets_GET env_acme upstream_not_found ''12abc'')
     = [''https://acme.freshdesk.com/api/v2/tickets/12''] \<and>
   resp_status (fst (conversations_GET env_acme upstream_not_found ''12abc'')) = 500 \<and>
   snd (conversations_GET env_acme upstream_not_found ''12abc'')
     = [''https://acme.freshdesk.com/api/v2/tickets/12/conversations?page=1&per_page=100''] \<and>
   resp_status (fst (attachments_GET env_acme upstream_not_found ''12abc'' None)) = 500 \<and>
   snd (attachments_GET env_acme upstream_not_found ''12abc'' None)
     = [''https://acme.freshdesk.com/api/v2/attachments/12'']"
  by code_simp

text \<open>
  C2, amended. An identifier for which \<open>Number.parseInt\<close> gives NaN or 0 makes the
  ticket, the conversations and the attachment route answer 400 (\<open>Invalid ticket ID\<close>,
  \<open>Invalid attachment ID\<close>) without a request to the upstream service, whatever the
  configuration and whatever the upstream service would answer. These are in
  particular the identifiers that, once leading white space and one sign are dropped,
  are empty or do not begin with a digit, and those that begin there with zeros that no
  further digit and no \<open>x\<close> follows.
\<close>

theorem unparsable_id_rejected:
  assumes trimmed: "trimmed = dropWhile isStrWhiteSpaceChar params_id"
    and unsigned: "unsigned =
           (if trimmed \<noteq> [] \<and> (hd trimmed = CHR ''+'' \<or> hd trimmed = CHR ''-'')
            then tl trimmed else trimmed)"
    and bad: "parseInt params_id 0 = None \<or> parseInt params_id 0 = Some 0 \<or>
              unsigned = [] \<or> \<not> isDigit (hd unsigned) \<or>
              (\<exists>k rest. 0 < k \<and> unsigned = replicate k (CHR ''0'') @ rest \<and>
                 (rest = [] \<or>
                  (\<not> isDigit (hd rest) \<and> hd rest \<noteq> CHR ''x'' \<and> hd rest \<noteq> CHR ''X'')))"
  shows "tickets_GET env fetch params_id =
           (NextResponse_json (JObj [(''error'', JStr ''Invalid ticket ID'')]) 400, []) \<and>
         conversations_GET env fetch params_id =
           (NextResponse_json (JObj [(''error'', JStr ''Invalid ticket ID'')]) 400, []) \<and>
         attachments_GET env fetch params_id requestedFilename =
           (NextResponse_json (JObj [(''error'', JStr ''Invalid attachment ID'')]) 400, [])"
proof -
  have "parseInt params_id 0 = None \<or> parseInt params_id 0 = Some 0"
    using bad parseInt_no_leading_digit [OF trimmed unsigned]
      parseInt_leading_zeros [OF trimmed unsigned]
    by blast
  then show ?thesis by (rule not_number_rejected)
qed

theorem unparsable_id_rejected_witness:
  "resp_status (fst (tickets_GET env_acme upstream_not_found ''abc'')) = 400 \<and>
   snd (tickets_GET env_acme upstream_not_found ''abc'') = [] \<and>
   resp_status (fst (conversations_GET env_acme upstream_not_found ''abc'')) = 400 \<and>
   snd (conversations_GET env_acme upstream_not_found ''abc'') = [] \<and>
   resp_status (fst (attachments_GET env_acme upstream_not_found ''-0'' None)) = 400 \<and>
   snd (attachments_GET env_acme upstream_not_found ''-0'' None) = [] \<and>
   resp_status (fst (tickets_GET env_acme upstream_not_found ''0x0'')) = 400 \<and>
   snd (tickets_GET env_acme upstream_not_found ''0x0'') = []"
proof -
  have abc: "\<not> isDigit (hd ''abc'')"
    by (simp add: isDigit_def)
  have zero: "\<exists>k rest. 0 < k \<and> ''0'' = replicate k (CHR ''0'') @ rest \<and>
                 (rest = [] \<or>
                  (\<not> isDigit (hd rest) \<and> hd rest \<noteq> CHR ''x'' \<and> hd rest \<noteq> CHR ''X''))"
    by (rule exI [of _ 1], rule exI [of _ "[]"]) simp
  have hex: "parseInt ''0x0'' 0 = Some 0"
    by (simp add: parseInt_def isStrWhiteSpaceChar_def digitValue_def mathInt_def)
  show ?thesis
    using unparsable_id_rejected [where params_id = "''abc''" and trimmed = "''abc''"
        and unsigned = "''abc''" and env = env_acme and fetch = upstream_not_found
        and requestedFilename = None]
      unparsable_id_rejected [where params_id = "''-0''" and trimmed = "''-0''"
        and unsigned = "''0''" and env = env_acme and fetch = upstream_not_found
        and requestedFilename = None]
      unparsable_id_rejected [where params_id = "''0x0''" and trimmed = "''0x0''"
        and unsigned = "''0x0''" and env = env_acme and fetch = upstream_not_found
        and requestedFilename = None]
      abc zero hex
    by (simp add: isStrWhiteSpaceChar_def NextResponse_json_def)
qed

section \<open>Validation of the configuration\<close>

text \<open>
  C1, as stated, fails on the code. With the placeholder domain configured, the ticket
  and the conversations route answer an identifier that is not a number with 400, not
  with the configuration error: the identifier is checked first. The attachment route
  tests only whether the two variables are set, so with the placeholder domain it
  requests the attachment upstream. The search route checks no configuration: it
  requests the ticket and its conversations and answers the upstream 404 with 404.
\<close>

theorem configuration_error_counterexample:
  "resp_status (fst (tickets_GET env_placeholder upstream_not_found ''abc'')) = 400 \<and>
   resp_status (fst (conversations_GET env_placeholder upstream_not_found ''abc'')) = 400 \<and>
   snd (attachments_GET env_placeholder upstream_not_found ''7'' None)
     = [''https://your-domain.freshdesk.com/api/v2/attachments/7''] \<and>
   resp_status (fst (search_GET no_params True env_placeholder upstream_not_found
                       (Some ''12'') (Some ''number''))) = 404 \<and>
   snd (search_GET no_params True env_placeholder upstream_not_found
          (Some ''12'') (Some ''number''))
     = [''https://your-domain.freshdesk.com/api/v2/tickets/12'',
        ''https://your-domain.freshdesk.com/api/v2/tickets/12/conversations?page=1&per_page=100'']"
  by code_simp

text \<open>
  C1, amended. For an identifier that parses to a non-zero number: when the domain or
  the API key is empty or its placeholder, the ticket and the conversations route answer
  500 with the error \<open>Configuration Error\<close> and request nothing upstream; when the
  domain or the API key is empty, the attachment route answers 500 with the error
  \<open>Freshdesk configuration missing\<close> and requests nothing upstream. No upstream answer,
  a 404 included, is read before the configuration error.
\<close>

theorem configuration_error_before_upstream:
  assumes "parseInt params_id 0 = Some n" and "n \<noteq> 0"
  shows
    "(domain (freshdeskConfig env) \<in> {[], ''your-domain''} \<or>
      apiKey (freshdeskConfig env) \<in> {[], ''your-api-key''} \<longrightarrow>
        resp_status (fst (tickets_GET env fetch params_id)) = 500 \<and>
        get (response_json (fst (tickets_GET env fetch params_id))) ''error''
          = JStr ''Configuration Error'' \<and>
        snd (tickets_GET env fetch params_id) = [] \<and>
        resp_status (fst (conversations_GET env fetch params_id)) = 500 \<and>
        get (response_json (fst (conversations_GET env fetch params_id))) ''error''
          = JStr ''Configuration Error'' \<and>
        snd (conversations_GET env fetch params_id) = []) \<and>
     (domain (freshdeskConfig env) = [] \<or> apiKey (freshdeskConfig env) = [] \<longrightarrow>
        resp_status (fst (attachments_GET env fetch params_id requestedFilename)) = 500 \<and>
        get (response_json (fst (attachments_GET env fetch params_id requestedFilename)))
          ''error'' = JStr ''Freshdesk configuration missing'' \<and>
        snd (attachments_GET env fetch params_id requestedFilename) = [])"
proof -
  have valid: "\<not> not_number (parseInt params_id 0)"
    using assms by (simp add: not_number_def)
  have tickets: "resp_status (fst (tickets_GET env fetch params_id)) = 500 \<and>
        get (response_json (fst (tickets_GET env fetch params_id))) ''error''
          = JStr ''Configuration Error'' \<and>
        snd (tickets_GET env fetch params_id) = []"
    if "domain (freshdeskConfig env) \<in> {[], ''your-domain''} \<or>
      apiKey (freshdeskConfig env) \<in> {[], ''your-api-key''}"
    using that valid
    by (auto simp add: tickets_GET_def domainError_def apiKeyError_def NextResponse_json_def
        response_json_def)
  have conversations: "resp_status (fst (conversations_GET env fetch params_id)) = 500 \<and>
        get (response_json (fst (conversations_GET env fetch params_id))) ''error''
          = JStr ''Configuration Error'' \<and>
        snd (conversations_GET env fetch params_id) = []"
    if "domain (freshdeskConfig env) \<in> {[], ''your-domain''} \<or>
      apiKey (freshdeskConfig env) \<in> {[], ''your-api-key''}"
    using that valid
    by (auto simp add: conversations_GET_def domainError_def apiKeyError_def
        NextResponse_json_def response_json_def)
  have attachments:
    "resp_status (fst (attachments_GET env fetch params_id requestedFilename)) = 500 \<and>
        get (response_json (fst (attachments_GET env fetch params_id requestedFilename)))
          ''error'' = JStr ''Freshdesk configuration missing'' \<and>
        snd (attachments_GET env fetch params_id requestedFilename) = []"
    if "domain (freshdeskConfig env) = [] \<or> apiKey (freshdeskConfig env) = []"
  proof -
    from that have "env_unset (FRESHDESK_DOMAIN env) \<or> env_unset (FRESHDESK_API_KEY env)"
      by (simp add: env_unset_iff freshdeskConfig_def)
    then show ?thesis
      using valid
      by (simp add: attachments_GET_def NextResponse_json_def response_json_def)
  qed
  from tickets conversations attachments show ?thesis by blast
qed

lemma parseInt_12: "parseInt ''12'' 0 = Some 12"
  by (simp add: parseInt_def isStrWhiteSpaceChar_def digitValue_def mathInt_def)

theorem configuration_error_before_upstream_witness:
  "parseInt ''12'' 0 = Some 12 \<and>
   domain (freshdeskConfig env_placeholder) = ''your-domain'' \<and>
   resp_status (fst (tickets_GET env_placeholder upstream_not_found ''12'')) = 500 \<and>
   snd (tickets_GET env_placeholder upstream_not_found ''12'') = [] \<and>
   resp_status (fst (conversations_GET env_placeholder upstream_not_found ''12'')) = 500 \<and>
   snd (conversations_GET env_placeholder upstream_not_found ''12'') = [] \<and>
   domain (freshdeskConfig env_empty) = [] \<and>
   resp_status (fst (attachments_GET env_empty upstream_not_found ''12'' None)) = 500 \<and>
   snd (attachments_GET env_empty upstream_not_found ''12'' None) = []"
  using configuration_error_before_upstream
      [OF parseInt_12, of env_placeholder upstream_not_found None]
    configuration_error_before_upstream [OF parseInt_12, of env_empty upstream_not_found None]
  by (simp add: parseInt_12 freshdeskConfig_def env_or_empty_def env_placeholder_def
      env_empty_def)

section \<open>The attachment's file name\<close>

text \<open>
  A \<open>content-disposition\<close> header that names the file, quoted or not, gives that name.
\<close>

lemma filename_from_header:
  "map_option stripQuotes
     (filenameMatch (''attachment; filename='' @ [CHR 0x22] @ ''report.pdf'' @ [CHR 0x22]))
     = Some ''report.pdf''"
  "map_option stripQuotes (filenameMatch ''attachment; filename=report.pdf'')
     = Some ''report.pdf''"
  by code_simp+

text \<open>
  Without the header \<open>getAttachment\<close> already returns the name \<open>attachment_{id}\<close>, which
  is not empty: the route's \<open>filename || requestedFilename || ...\<close> then never reaches
  the file name of the query string.
\<close>

lemma filename_without_header:
  assumes "fetch (baseUrl config @ ''/attachments/'' @ show_int n) = Responded r"
    and "ok r" and "headers r ''content-disposition'' = None"
  shows "\<exists>a. fst (getAttachment fetch config n) = Inr a \<and>
             finalFilename (filename a) requestedFilename n = ''attachment_'' @ show_int n"
  using assms
  by (simp add: getAttachment_def header_or_def finalFilename_def matchHere_def startsWith_def)

text \<open>
  C6. The second case of the claim fails on the code: for attachment 7, served
  upstream without a \<open>content-disposition\<close> header, and the request
  \<open>?filename=report.pdf\<close>, the response names the file \<open>attachment_7\<close>, not
  \<open>report.pdf\<close>.
\<close>

theorem query_filename_ignored:
  "map_of (resp_headers (fst (attachments_GET env_acme upstream_plain_file ''7''
                                (Some ''report.pdf'')))) ''Content-Disposition''
     = Some (''attachment; filename='' @ [CHR 0x22] @ ''attachment_7'' @ [CHR 0x22])"
  by code_simp

section \<open>The dashboard and its conversations\<close>

text \<open>
  The dashboard names the ticket by the decimal rendering of its number, and the routes
  parse that rendering back to the number.
\<close>

lemma isDigit_cases:
  "isDigit c \<longleftrightarrow> c = CHR ''0'' \<or> c = CHR ''1'' \<or> c = CHR ''2'' \<or> c = CHR ''3'' \<or> c = CHR ''4''
     \<or> c = CHR ''5'' \<or> c = CHR ''6'' \<or> c = CHR ''7'' \<or> c = CHR ''8'' \<or> c = CHR ''9''"
  by (simp add: isDigit_def)

lemma below_ten:
  "(d::nat) < 10 \<Longrightarrow> d = 0 \<or> d = 1 \<or> d = 2 \<or> d = 3 \<or> d = 4 \<or> d = 5 \<or> d = 6 \<or> d = 7 \<or> d = 8 \<or> d = 9"
  by arith


lemma digit_char_value:
  assumes "d < 10"
  shows "digitValue (''0123456789'' ! d) = Some d" and "isDigit (''0123456789'' ! d)"
  using below_ten [OF assms]
  by (elim disjE; simp add: digitValue_def isDigit_def)+

lemma isDigit_value: "isDigit c \<Longrightarrow> \<exists>d<10. digitValue c = Some d"
  unfolding isDigit_cases by (elim disjE; simp add: digitValue_def)

lemma isDigit_plain:
  "isDigit c \<Longrightarrow> \<not> isStrWhiteSpaceChar c \<and> c \<noteq> CHR ''+'' \<and> c \<noteq> CHR ''-'' \<and> c \<noteq> CHR ''x''
     \<and> c \<noteq> CHR ''X''"
  unfolding isDigit_cases by (elim disjE; simp add: isStrWhiteSpaceChar_def)

lemma radixDigits_append:
  "list_all isDigit xs \<Longrightarrow> radixDigits 10 (xs @ ys) = radixDigits 10 xs @ radixDigits 10 ys"
proof (induction xs)
  case Nil
  show ?case by simp
next
  case (Cons c cs)
  then obtain d where "d < 10" and "digitValue c = Some d"
    using isDigit_value [of c] by auto
  with Cons show ?case by simp
qed

lemma show_nat_digits: "list_all isDigit (show_nat n) \<and> show_nat n \<noteq> []"
proof (induction n rule: show_nat.induct)
  case (1 n)
  show ?case
  proof (cases "n < 10")
    case True
    then show ?thesis
      using digit_char_value(2) [of n] by (simp add: show_nat.simps [of n])
  next
    case False
    then show ?thesis
      using "1.IH" digit_char_value(2) [of "n mod 10"] by (simp add: show_nat.simps [of n])
  qed
qed

lemma mathInt_snoc: "mathInt R (ds @ [d]) = mathInt R ds * R + d"
  by (simp add: mathInt_def)

lemma radixDigits_show_nat:
  "radixDigits 10 (show_nat n) \<noteq> [] \<and> mathInt 10 (radixDigits 10 (show_nat n)) = n"
proof (induction n rule: show_nat.induct)
  case (1 n)
  show ?case
  proof (cases "n < 10")
    case True
    then show ?thesis
      using digit_char_value(1) [of n] by (simp add: show_nat.simps [of n] mathInt_def)
  next
    case False
    have last: "radixDigits 10 [''0123456789'' ! (n mod 10)] = [n mod 10]"
      using digit_char_value(1) [of "n mod 10"] by simp
    have "radixDigits 10 (show_nat n)
        = radixDigits 10 (show_nat (n div 10)) @ [n mod 10]"
      using False show_nat_digits [of "n div 10"] last
      by (simp add: show_nat.simps [of n] radixDigits_append del: radixDigits.simps)
    then show ?thesis
      using "1.IH" False by (simp add: mathInt_snoc)
  qed
qed

lemma show_nat_no_prefix:
  "\<not> isStrWhiteSpaceChar (hd (show_nat n)) \<and> hd (show_nat n) \<noteq> CHR ''+'' \<and>
   hd (show_nat n) \<noteq> CHR ''-'' \<and> take 2 (show_nat n) \<noteq> ''0x'' \<and> take 2 (show_nat n) \<noteq> ''0X''"
proof -
  obtain c cs where s: "show_nat n = c # cs" and c: "isDigit c" and cs: "list_all isDigit cs"
    using show_nat_digits [of n] by (cases "show_nat n") auto
  have "take 2 (c # cs) \<noteq> ''0x'' \<and> take 2 (c # cs) \<noteq> ''0X''"
  proof (cases cs)
    case Nil
    then show ?thesis by simp
  next
    case (Cons e es)
    with cs have "isDigit e" by simp
    then show ?thesis using Cons isDigit_plain [of e] by (simp add: numeral_2_eq_2)
  qed
  with s c isDigit_plain [of c] show ?thesis by simp
qed

lemma parseInt_unsigned:
  assumes "s \<noteq> []" and "\<not> isStrWhiteSpaceChar (hd s)"
    and "hd s \<noteq> CHR ''+''" and "hd s \<noteq> CHR ''-''"
    and "take 2 s \<noteq> ''0x''" and "take 2 s \<noteq> ''0X''" and "radixDigits 10 s \<noteq> []"
  shows "parseInt s 0 = Some (int (mathInt 10 (radixDigits 10 s)))"
proof -
  have "dropWhile isStrWhiteSpaceChar s = s"
    using assms(1,2) by (cases s) simp_all
  then show ?thesis
    unfolding parseInt_def Let_def using assms by simp
qed

lemma parseInt_negative:
  assumes "take 2 s \<noteq> ''0x''" and "take 2 s \<noteq> ''0X''" and "radixDigits 10 s \<noteq> []"
  shows "parseInt (CHR ''-'' # s) 0 = Some (- int (mathInt 10 (radixDigits 10 s)))"
proof -
  have "dropWhile isStrWhiteSpaceChar (CHR ''-'' # s) = CHR ''-'' # s"
    by (simp add: isStrWhiteSpaceChar_def)
  then show ?thesis
    unfolding parseInt_def Let_def using assms by simp
qed

lemma parseInt_show_int: "parseInt (show_int n) 0 = Some n"
proof (cases "n < 0")
  case True
  then show ?thesis
    using parseInt_negative [of "show_nat (nat (- n))"] show_nat_no_prefix [of "nat (- n)"]
      radixDigits_show_nat [of "nat (- n)"]
    by (simp add: show_int_def)
next
  case False
  then show ?thesis
    using parseInt_unsigned [of "show_nat (nat n)"] show_nat_no_prefix [of "nat n"]
      radixDigits_show_nat [of "nat n"] show_nat_digits [of "nat n"]
    by (simp add: show_int_def)
qed

lemma getConversations_404:
  assumes "fetch (baseUrl config @ ''/tickets/'' @ show_int n
                   @ ''/conversations?page=1&per_page=100'') = Responded r"
    and "status r = 404"
  shows "\<exists>e. fst (getConversations fetch config n 1) = Inl e"
  using assms by (simp add: getConversations_def ok_def show_nat_1)

lemma responseOk_conversationsFetchError: "\<not> responseOk (conversationsFetchError e n)"
  by (simp add: conversationsFetchError_def NextResponse_json_def responseOk_def)

lemma responseOk_configuration_errors:
  "\<not> responseOk domainError" "\<not> responseOk apiKeyError"
  "\<not> responseOk (NextResponse_json v 400)"
  by (simp_all add: domainError_def apiKeyError_def NextResponse_json_def responseOk_def)

lemma conversations_GET_404:
  assumes "fetch (baseUrl (freshdeskConfig env) @ ''/tickets/'' @ show_int n
                   @ ''/conversations?page=1&per_page=100'') = Responded r"
    and "status r = 404"
  shows "\<not> responseOk (fst (conversations_GET env fetch (show_int n)))"
proof -
  obtain e calls where "getConversations fetch (freshdeskConfig env) n 1 = (Inl e, calls)"
    using getConversations_404 [of fetch "freshdeskConfig env" n r] assms
    by (cases "getConversations fetch (freshdeskConfig env) n 1") auto
  then show ?thesis
    by (simp add: conversations_GET_def parseInt_show_int not_number_def
        responseOk_configuration_errors responseOk_conversationsFetchError)
qed

lemma fetchConversations_failed:
  assumes "\<not> responseOk (fst (conversations_GET env fetch (show_int n)))"
  shows "fst (fetchConversations reason env fetch n) = Inr (JArr []) \<or>
         (\<exists>e. fst (fetchConversations reason env fetch n) = Inl e)"
  using assms
  by (cases "conversations_GET env fetch (show_int n)") (simp add: fetchConversations_def)

lemma loadData_conversations_failed:
  assumes "\<not> responseOk (fst (conversations_GET env fetch (show_int n)))"
  shows "conversations (fst (loadData reason env fetch n)) = JArr []"
  using fetchConversations_failed [OF assms, of reason]
  by (auto simp add: loadData_def split: prod.splits sum.splits)

lemma loadData_ticket_loaded:
  assumes "fst (fetchTicketDetails reason env fetch n) = Inr t"
  shows "ticket (fst (loadData reason env fetch n)) = t \<and>
         error (fst (loadData reason env fetch n)) = None"
  using assms by (auto simp add: loadData_def split: prod.splits sum.splits)

text \<open>
  C3. When the upstream service answers the conversations request of ticket \<open>n\<close> with
  404, the dashboard's conversations are the empty list. More generally, whenever the
  conversations route does not answer with success the conversations are the empty
  list; and a ticket that was fetched is shown with no error, whatever happened to its
  conversations.
\<close>

theorem conversations_failure_degrades:
  "(fetch (baseUrl (freshdeskConfig env) @ ''/tickets/'' @ show_int n
            @ ''/conversations?page=1&per_page=100'') = Responded r \<and> status r = 404 \<longrightarrow>
      conversations (fst (useFreshdeskData reason env fetch (Some n))) = JArr []) \<and>
   (\<not> responseOk (fst (conversations_GET env fetch (show_int n))) \<longrightarrow>
      conversations (fst (useFreshdeskData reason env fetch (Some n))) = JArr []) \<and>
   (n \<noteq> 0 \<and> fst (fetchTicketDetails reason env fetch n) = Inr t \<longrightarrow>
      ticket (fst (useFreshdeskData reason env fetch (Some n))) = t \<and>
      error (fst (useFreshdeskData reason env fetch (Some n))) = None)"
  using conversations_GET_404 [of fetch env n r] loadData_conversations_failed [of env fetch n reason]
    loadData_ticket_loaded [of reason env fetch n t]
  by (auto simp add: useFreshdeskData_def)

lemma ticket_only_conversations:
  "upstream_ticket_only (baseUrl (freshdeskConfig env_acme) @ ''/tickets/'' @ show_int 12
            @ ''/conversations?page=1&per_page=100'') = Responded not_found_response"
  by (simp add: upstream_ticket_only_def show_int_def show_nat.simps)

lemma ticket_only_status: "status not_found_response = 404"
  by (simp add: not_found_response_def)

lemma ticket_only_ticket:
  "fst (fetchTicketDetails no_reason env_acme upstream_ticket_only 12) =
     Inr (JObj
       [(''id'', JNum 12), (''subject'', JStr ''Printer''), (''description'', JUndefined),
        (''status'', JStr ''open''), (''priority'', JStr ''medium''),
        (''requester'', JObj [(''name'', JStr ''Unknown''),
           (''email'', JStr ''unknown@example.com''), (''phone'', JUndefined),
           (''avatar'', JUndefined)]),
        (''agent'', JUndefined), (''created_at'', JUndefined), (''updated_at'', JUndefined),
        (''tags'', JArr [])])"
  by code_simp

theorem conversations_failure_degrades_witness:
  "status not_found_response = 404 \<and>
   conversations (fst (useFreshdeskData no_reason env_acme upstream_ticket_only (Some 12)))
     = JArr [] \<and>
   get (ticket (fst (useFreshdeskData no_reason env_acme upstream_ticket_only (Some 12))))
     ''subject'' = JStr ''Printer'' \<and>
   error (fst (useFreshdeskData no_reason env_acme upstream_ticket_only (Some 12))) = None"
  using conversations_failure_degrades
      [of upstream_ticket_only env_acme 12 not_found_response no_reason
        "JObj
       [(''id'', JNum 12), (''subject'', JStr ''Printer''), (''description'', JUndefined),
        (''status'', JStr ''open''), (''priority'', JStr ''medium''),
        (''requester'', JObj [(''name'', JStr ''Unknown''),
           (''email'', JStr ''unknown@example.com''), (''phone'', JUndefined),
           (''avatar'', JUndefined)]),
        (''agent'', JUndefined), (''created_at'', JUndefined), (''updated_at'', JUndefined),
        (''tags'', JArr [])]"]
    ticket_only_conversations ticket_only_status ticket_only_ticket
  by simp

end
